theory Spec2Isabelle
  imports Complex_Main "HOL-Library.Sublist"
begin

section \<open>Python values shared by the services\<close>

text \<open>
  The exceptions that the modelled code can raise.  A function that may raise returns
  \<open>py_error + 'a\<close>, with \<open>Inl\<close> for the exception.
\<close>

datatype py_error = KeyError | ZeroDivisionError | OverflowError | AttributeError | TypeError
  | OSError

text \<open>
  \<open>random.randint(a, b)\<close> returns some integer \<open>N\<close> with \<open>a \<le> N \<le> b\<close>.  The model takes
  the entropy the generator consumes as a natural number \<open>rho\<close> supplied by the caller; as
  \<open>rho\<close> ranges over the naturals the result ranges over exactly the integers of the
  interval.
\<close>

definition randint :: "nat \<Rightarrow> int \<Rightarrow> int \<Rightarrow> int" where
  "randint rho a b = a + int rho mod (b - a + 1)"

section \<open>Progress tracker (assessment\_service.py)\<close>

text \<open>An entry of \<open>user_data["history"]\<close>.\<close>

record submission_event =
  ev_level :: int
  ev_score :: int
  ev_max_score :: int
  ev_passed :: bool
  ev_xp_gained :: int
  ev_timestamp :: string

text \<open>
  A dictionary of the \<open>mistakes\<close> argument.  The code reads \<open>m["question"]\<close>, which raises
  \<open>KeyError\<close> when the key is absent, and the other three keys with \<open>m.get\<close>, which gives
  \<open>None\<close> then.
\<close>

record mistake_arg =
  arg_question :: "string option"
  arg_correct_answer :: "string option"
  arg_explanation :: "string option"
  arg_user_answer :: "string option"

text \<open>An entry of \<open>user_data["mistakes"]\<close>.\<close>

record mistake_entry =
  me_question :: string
  me_correct_answer :: "string option"
  me_explanation :: "string option"
  me_user_answer :: "string option"
  me_level :: int
  me_comments :: string
  me_timestamp :: string

text \<open>
  The value stored per session.  The key \<open>"mistakes"\<close> may be absent (the code adds it
  when it is), so the field is optional; the other keys are always written.
\<close>

record user_data =
  xp :: int
  unlocked_level :: int
  history :: "submission_event list"
  mistakes :: "mistake_entry list option"

text \<open>
  The progress file \<open>data/user_progress.json\<close>: absent, or present with a modification
  time (as \<open>str\<close> renders it) and the dictionary from session id to user data.
\<close>

type_synonym progress = "string \<rightharpoonup> user_data"
type_synonym progress_file = "(string \<times> progress) option"

definition load_user_progress :: "progress_file \<Rightarrow> progress" where
  "load_user_progress pf = (case pf of None \<Rightarrow> Map.empty | Some (mt, p) \<Rightarrow> p)"

text \<open>Writing the file gives it the modification time \<open>now\<close> read from the clock.\<close>

definition save_user_progress :: "string \<Rightarrow> progress \<Rightarrow> progress_file" where
  "save_user_progress now p = Some (now, p)"

text \<open>\<open>str(os.path.getmtime(PROGRESS_FILE) if os.path.exists(PROGRESS_FILE) else 0)\<close>\<close>

definition file_timestamp :: "progress_file \<Rightarrow> string" where
  "file_timestamp pf = (case pf of None \<Rightarrow> ''0'' | Some (mt, p) \<Rightarrow> mt)"

text \<open>The dictionary \<open>submit_assessment_result\<close> returns.\<close>

record submit_result =
  res_passed :: bool
  res_xp_gained :: int
  res_new_total_xp :: int
  res_unlocked_level :: int
  res_score :: int

text \<open>
  The branch on \<open>level\<close> (``Bloom's Logic and Thresholds''): the gained XP, the pass flag
  and the user data with its unlocked level raised.
\<close>

definition apply_thresholds :: "nat \<Rightarrow> int \<Rightarrow> int \<Rightarrow> user_data \<Rightarrow> int \<times> bool \<times> user_data" where
  "apply_thresholds rho level score ud =
     (if level = 1 then
        (if score \<ge> 8 then
           (randint rho 50 100, True,
            if unlocked_level ud < 2 then ud\<lparr>unlocked_level := 2\<rparr> else ud)
         else (0, False, ud))
      else if level = 2 then
        (if score \<ge> 7 then
           (randint rho 100 150, True,
            if unlocked_level ud < 3 then ud\<lparr>unlocked_level := 3\<rparr> else ud)
         else (0, False, ud))
      else if level = 3 then
        (if score > 0 then (randint rho 150 200, True, ud) else (0, False, ud))
      else (0, False, ud))"

text \<open>
  The loop \<open>for m in mistakes\<close>: a mistake is appended unless a stored one has the same
  question; the list tested is the one being extended.
\<close>

fun add_mistakes :: "int \<Rightarrow> string \<Rightarrow> mistake_entry list \<Rightarrow> mistake_arg list
    \<Rightarrow> py_error + mistake_entry list" where
  "add_mistakes level ts stored [] = Inr stored"
| "add_mistakes level ts stored (m # ms) =
     (case arg_question m of
        None \<Rightarrow> Inl KeyError
      | Some q \<Rightarrow>
          if list_ex (\<lambda>dm. me_question dm = q) stored
          then add_mistakes level ts stored ms
          else add_mistakes level ts
                 (stored @ [\<lparr>me_question = q,
                              me_correct_answer = arg_correct_answer m,
                              me_explanation = arg_explanation m,
                              me_user_answer = arg_user_answer m,
                              me_level = level,
                              me_comments = '''',
                              me_timestamp = ts\<rparr>]) ms)"

text \<open>
  \<open>submit_assessment_result\<close>.  The result is the exception raised (the file is then as it
  was), or the file as saved together with the returned dictionary.
\<close>

definition submit_assessment_result :: "progress_file \<Rightarrow> string \<Rightarrow> nat \<Rightarrow> string \<Rightarrow> int \<Rightarrow> int
    \<Rightarrow> int \<Rightarrow> mistake_arg list option \<Rightarrow> py_error + (progress_file \<times> submit_result)" where
  "submit_assessment_result pf now rho session_id level score max_score mistakes_arg =
     (let progress = load_user_progress pf;
          ud0 = (case progress session_id of
                   None \<Rightarrow> \<lparr>xp = 0, unlocked_level = 1, history = [], mistakes = Some []\<rparr>
                 | Some d \<Rightarrow> d);
          ud1 = (if mistakes ud0 = None then ud0\<lparr>mistakes := Some []\<rparr> else ud0);
          (xp_gained, passed, ud2) = apply_thresholds rho level score ud1;
          ud3 = (if passed then ud2\<lparr>xp := xp ud2 + xp_gained\<rparr> else ud2);
          ts = file_timestamp pf;
          ud4 = ud3\<lparr>history := history ud3 @
                  [\<lparr>ev_level = level, ev_score = score, ev_max_score = max_score,
                    ev_passed = passed, ev_xp_gained = xp_gained, ev_timestamp = ts\<rparr>]\<rparr>;
          stored = (case mistakes ud4 of None \<Rightarrow> [] | Some l \<Rightarrow> l);
          added = (case mistakes_arg of
                     None \<Rightarrow> Inr stored
                   | Some ms \<Rightarrow> if ms = [] then Inr stored else add_mistakes level ts stored ms)
      in case added of
           Inl e \<Rightarrow> Inl e
         | Inr l \<Rightarrow>
             (let ud5 = ud4\<lparr>mistakes := Some l\<rparr>
              in Inr (save_user_progress now (progress(session_id \<mapsto> ud5)),
                      \<lparr>res_passed = passed, res_xp_gained = xp_gained,
                        res_new_total_xp = xp ud5, res_unlocked_level = unlocked_level ud5,
                        res_score = score\<rparr>)))"

text \<open>\<open>get_progress\<close>, with its default for an unknown session.\<close>

definition get_progress :: "progress_file \<Rightarrow> string \<Rightarrow> user_data" where
  "get_progress pf session_id =
     (case load_user_progress pf session_id of
        None \<Rightarrow> \<lparr>xp = 0, unlocked_level = 1, history = [], mistakes = None\<rparr>
      | Some d \<Rightarrow> d)"

text \<open>
  The mistakes of one session, as \<open>get_mistakes\<close> returns them for a session id other than
  the sentinel \<open>"all"\<close>: \<open>progress[session_id].get("mistakes", [])\<close>, or \<open>[]\<close> for an unknown
  session.
\<close>

definition session_mistakes :: "progress_file \<Rightarrow> string \<Rightarrow> mistake_entry list" where
  "session_mistakes pf session_id =
     (case load_user_progress pf session_id of
        None \<Rightarrow> []
      | Some d \<Rightarrow> (case mistakes d of None \<Rightarrow> [] | Some l \<Rightarrow> l))"

text \<open>
  \<open>update_mistake_comment\<close>: the first stored mistake with the question gets the comment
  and the file is saved; without a match nothing is written.
\<close>

fun set_comment :: "string \<Rightarrow> string \<Rightarrow> mistake_entry list \<Rightarrow> mistake_entry list option" where
  "set_comment q c [] = None"
| "set_comment q c (m # ms) =
     (if me_question m = q then Some (m\<lparr>me_comments := c\<rparr> # ms)
      else map_option ((#) m) (set_comment q c ms))"

definition update_mistake_comment :: "progress_file \<Rightarrow> string \<Rightarrow> string \<Rightarrow> string \<Rightarrow> string
    \<Rightarrow> progress_file \<times> bool" where
  "update_mistake_comment pf now session_id question_text comment =
     (let progress = load_user_progress pf
      in case progress session_id of
           None \<Rightarrow> (pf, False)
         | Some d \<Rightarrow>
             (case mistakes d of
                None \<Rightarrow> (pf, False)
              | Some l \<Rightarrow>
                  (case set_comment question_text comment l of
                     None \<Rightarrow> (pf, False)
                   | Some l' \<Rightarrow>
                       (save_user_progress now (progress(session_id \<mapsto> d\<lparr>mistakes := Some l'\<rparr>)),
                        True))))"

text \<open>
  A mistake list is well formed when every dictionary has the key \<open>"question"\<close>; an
  absent argument (\<open>None\<close>) is well formed.
\<close>

definition wf_mistakes :: "mistake_arg list option \<Rightarrow> bool" where
  "wf_mistakes mistakes_arg =
     (case mistakes_arg of None \<Rightarrow> True | Some ms \<Rightarrow> list_all (\<lambda>m. arg_question m \<noteq> None) ms)"

text \<open>
  A call of \<open>submit_assessment_result\<close> with what it reads from its environment, and a
  sequence of calls run against the file.  A call that raises leaves the file as it was.
\<close>

record submit_call =
  call_now :: string
  call_rho :: nat
  call_session :: string
  call_level :: int
  call_score :: int
  call_max_score :: int
  call_mistakes :: "mistake_arg list option"

definition submit_step :: "progress_file \<Rightarrow> submit_call \<Rightarrow> progress_file" where
  "submit_step pf c =
     (case submit_assessment_result pf (call_now c) (call_rho c) (call_session c) (call_level c)
             (call_score c) (call_max_score c) (call_mistakes c) of
        Inl e \<Rightarrow> pf
      | Inr (pf', r) \<Rightarrow> pf')"

fun submit_run :: "progress_file \<Rightarrow> submit_call list \<Rightarrow> progress_file" where
  "submit_run pf [] = pf"
| "submit_run pf (c # cs) = submit_run (submit_step pf c) cs"

section \<open>Strings and paths\<close>

text \<open>
  Python strings are modelled as \<open>string\<close>; the characters are the code points below 256.
  \<open>str.isspace\<close> holds of exactly these twelve of them.
\<close>

definition py_isspace :: "char \<Rightarrow> bool" where
  "py_isspace c \<longleftrightarrow> c \<in> set [CHR 0x09, CHR 0x0A, CHR 0x0B, CHR 0x0C, CHR 0x0D, CHR 0x1C,
     CHR 0x1D, CHR 0x1E, CHR 0x1F, CHR 0x20, CHR 0x85, CHR 0xA0]"

text \<open>\<open>s.strip()\<close>\<close>

definition py_strip :: "string \<Rightarrow> string" where
  "py_strip s = rev (dropWhile py_isspace (rev (dropWhile py_isspace s)))"

text \<open>\<open>s.startswith(p)\<close> and \<open>s.endswith(p)\<close>\<close>

definition startswith :: "string \<Rightarrow> string \<Rightarrow> bool" where
  "startswith s p \<longleftrightarrow> take (length p) s = p"

definition endswith :: "string \<Rightarrow> string \<Rightarrow> bool" where
  "endswith s p \<longleftrightarrow> length p \<le> length s \<and> drop (length s - length p) s = p"

text \<open>\<open>s.lower()\<close>, on the letters that matter for the test of the extension \<open>.pdf\<close>.\<close>

definition py_lower :: "string \<Rightarrow> string" where
  "py_lower s = map (\<lambda>c. case map_of (zip ''ABCDEFGHIJKLMNOPQRSTUVWXYZ''
                                           ''abcdefghijklmnopqrstuvwxyz'') c of
                           None \<Rightarrow> c | Some l \<Rightarrow> l) s"

text \<open>\<open>sep.join(xs)\<close>\<close>

fun py_join :: "string \<Rightarrow> string list \<Rightarrow> string" where
  "py_join sep [] = []"
| "py_join sep [x] = x"
| "py_join sep (x # y # ys) = x @ sep @ py_join sep (y # ys)"

text \<open>\<open>str(n)\<close> for an integer \<open>n\<close>.\<close>

function str_nat :: "nat \<Rightarrow> string" where
  "str_nat n = (if n < 10 then [''0123456789'' ! n]
                else str_nat (n div 10) @ [''0123456789'' ! (n mod 10)])"
  by pat_completeness auto
termination
  by (relation "measure id") auto

declare str_nat.simps [simp del]

definition str_int :: "int \<Rightarrow> string" where
  "str_int i = (if i < 0 then CHR ''-'' # str_nat (nat (- i)) else str_nat (nat i))"

text \<open>\<open>os.path.join(a, b)\<close> on a POSIX system.\<close>

definition path_join :: "string \<Rightarrow> string \<Rightarrow> string" where
  "path_join a b =
     (if startswith b ''/'' then b
      else if a = [] \<or> endswith a ''/'' then a @ b
      else a @ ''/'' @ b)"

definition newline :: string where
  "newline = [CHR 0x0A]"

definition fence :: string where
  "fence = ''```''"

definition fence_json :: string where
  "fence_json = ''```json''"

section \<open>JSON values and the collaborators\<close>

text \<open>
  What \<open>json.loads\<close> returns.  An object is the list of its items in order; its keys are
  distinct.
\<close>

datatype json = JNull | JBool bool | JInt int | JFloat rat | JStr string
  | JArr "json list" | JObj "(string \<times> json) list"

text \<open>
  The payload a service function returns: the dictionary \<open>{"error": message}\<close>, or a
  result.
\<close>

datatype 'a payload = Error string | Payload 'a

text \<open>
  The file system and the collaborators outside the repository, as one call of a service
  function sees them: \<open>os.path.exists\<close>; \<open>os.listdir\<close> (the names, or \<open>None\<close> when it raises,
  as it does with \<open>NotADirectoryError\<close> on a path that is a regular file); whether
  \<open>open(path, "w")\<close> succeeds; the PDF parser (the \<open>str\<close> of each element, or \<open>None\<close> when it
  raises); the chat model of the assessment service (the response content, or \<open>None\<close>
  when the call or the read of the content raises); \<open>json.loads\<close> and \<open>repair_json\<close> (\<open>Inl\<close>
  carries the \<open>str\<close> of the exception raised); and the content generation of the roadmap
  service (the response text, or the \<open>str\<close> of the exception).
\<close>

record collaborators =
  path_exists :: "string \<Rightarrow> bool"
  listdir :: "string \<Rightarrow> string list option"
  can_write :: "string \<Rightarrow> bool"
  partition_pdf :: "string \<Rightarrow> string list option"
  llm_invoke :: "string \<Rightarrow> string option"
  json_loads :: "string \<Rightarrow> string + json"
  repair_json :: "string \<Rightarrow> string + string"
  generate_content :: "string \<Rightarrow> string + string"

text \<open>
  The fixed wording of the prompt templates: for each assessment level the text before
  and after the inserted context, and the two system prompts of the roadmap service.  No
  property below depends on the wording, so it is a parameter.
\<close>

record prompt_texts =
  level1_head :: string
  level1_tail :: string
  level2_head :: string
  level2_tail :: string
  level3_head :: string
  level3_tail :: string
  roadmap_system_prompt :: string
  week_system_prompt :: string

section \<open>Assessment generation (assessment\_service.py)\<close>

definition UPLOAD_ROOT :: string where
  "UPLOAD_ROOT = ''uploads''"

definition ASSESSMENT_DIR :: string where
  "ASSESSMENT_DIR = path_join ''data'' ''assessments''"

text \<open>
  \<open>get_session_text\<close>: without the session directory the text is empty.  Otherwise the
  directory is listed, which is outside any \<open>try\<close>, so that an exception of \<open>os.listdir\<close>
  is raised to the caller.  The loop over the listing appends, for each name ending in
  \<open>.pdf\<close>, the elements of that file joined by newlines; a file whose parse raises is
  skipped.
\<close>

definition add_pdf_text :: "collaborators \<Rightarrow> string \<Rightarrow> string \<Rightarrow> string \<Rightarrow> string" where
  "add_pdf_text env session_dir full_text filename =
     (if endswith (py_lower filename) ''.pdf'' then
        (case partition_pdf env (path_join session_dir filename) of
           None \<Rightarrow> full_text
         | Some elements \<Rightarrow> full_text @ py_join newline elements)
      else full_text)"

definition get_session_text :: "collaborators \<Rightarrow> string \<Rightarrow> py_error + string" where
  "get_session_text env session_id =
     (let session_dir = path_join UPLOAD_ROOT session_id
      in if \<not> path_exists env session_dir then Inr []
         else
           (case listdir env session_dir of
              None \<Rightarrow> Inl OSError
            | Some filenames \<Rightarrow>
                Inr (take 50000 (foldl (add_pdf_text env session_dir) [] filenames))))"

definition get_assessment_prompt :: "prompt_texts \<Rightarrow> int \<Rightarrow> string \<Rightarrow> string" where
  "get_assessment_prompt tx level context =
     (if level = 1 then level1_head tx @ context @ level1_tail tx
      else if level = 2 then level2_head tx @ context @ level2_tail tx
      else if level = 3 then level3_head tx @ context @ level3_tail tx
      else [])"

text \<open>
  The lines under \<open># Clean Markdown\<close>, with the \<open>strip\<close> before them: \<open>content[7:-3]\<close>
  and \<open>content[3:-3]\<close>.
\<close>

definition clean_markdown :: "string \<Rightarrow> string" where
  "clean_markdown raw =
     (let content = py_strip raw
      in if startswith content fence_json then drop 7 (take (length content - 3) content)
         else if startswith content fence then drop 3 (take (length content - 3) content)
         else content)"

text \<open>The cached value: \<open>{"level", "timer_seconds", "questions"}\<close>.\<close>

record assessment =
  a_level :: int
  a_timer_seconds :: int
  a_questions :: json

text \<open>
  The cache directory maps a file path to the value \<open>json.load\<close> reads from it, which is
  the value \<open>json.dump\<close> wrote.  \<open>generate_assessment\<close> raises what \<open>get_session_text\<close>
  raises, which it calls outside its \<open>try\<close>; otherwise it returns its payload, the cache
  after the call, and the prompts it sent to the model.  The model call, the clean-up, the
  parse and the write of the cache file are inside the \<open>try\<close>: when one of them raises,
  the payload is the generic failure and nothing has been written.
\<close>

type_synonym assessment_cache = "string \<rightharpoonup> assessment"

definition cache_file :: "string \<Rightarrow> int \<Rightarrow> string" where
  "cache_file session_id level =
     path_join ASSESSMENT_DIR (session_id @ ''_lvl'' @ str_int level @ ''.json'')"

definition generate_assessment :: "prompt_texts \<Rightarrow> collaborators \<Rightarrow> assessment_cache \<Rightarrow> string
    \<Rightarrow> int \<Rightarrow> py_error + (assessment payload \<times> assessment_cache \<times> string list)" where
  "generate_assessment tx env cache session_id level =
     (case cache (cache_file session_id level) of
        Some cached \<Rightarrow> Inr (Payload cached, cache, [])
      | None \<Rightarrow>
          (case get_session_text env session_id of
             Inl e \<Rightarrow> Inl e
           | Inr context \<Rightarrow>
               if context = [] then Inr (Error ''No documents found for this session.'', cache, [])
               else
                 (let prompt = get_assessment_prompt tx level context
                  in case llm_invoke env prompt of
                       None \<Rightarrow> Inr (Error ''Failed to generate assessment.'', cache, [prompt])
                     | Some raw \<Rightarrow>
                         (case json_loads env (clean_markdown raw) of
                            Inl msg \<Rightarrow>
                              Inr (Error ''Failed to generate assessment.'', cache, [prompt])
                          | Inr assessment_data \<Rightarrow>
                              (let result = \<lparr>a_level = level, a_timer_seconds = 600,
                                              a_questions = assessment_data\<rparr>
                               in if can_write env (cache_file session_id level)
                                  then Inr (Payload result,
                                            cache(cache_file session_id level \<mapsto> result),
                                            [prompt])
                                  else Inr (Error ''Failed to generate assessment.'', cache,
                                            [prompt]))))))"

section \<open>Python floats\<close>

text \<open>
  \<open>days_completed / total_days\<close> and the product with \<open>100\<close> are IEEE 754 double
  operations: the exact result rounded to the nearest double, ties to even.  A finite
  double is \<open>Float m e\<close>, the number \<open>m \<cdot> 2\<^sup>e\<close>.
\<close>

datatype pyfloat = Float int int | PosInf | NegInf

definition pow2 :: "int \<Rightarrow> rat" where
  "pow2 e = (if 0 \<le> e then 2 ^ nat e else 1 / 2 ^ nat (- e))"

fun float_val :: "pyfloat \<Rightarrow> rat option" where
  "float_val (Float m e) = Some (of_int m * pow2 e)"
| "float_val PosInf = None"
| "float_val NegInf = None"

fun bit_length :: "nat \<Rightarrow> nat" where
  "bit_length n = (if n = 0 then 0 else Suc (bit_length (n div 2)))"

declare bit_length.simps [simp del]

text \<open>\<open>\<lfloor>log\<^sub>2 (n / d)\<rfloor>\<close> for positive \<open>n\<close> and \<open>d\<close>.\<close>

definition floor_log2 :: "int \<Rightarrow> int \<Rightarrow> int" where
  "floor_log2 n d =
     (let e0 = int (bit_length (nat n)) - int (bit_length (nat d))
      in if (if 0 \<le> e0 then d * 2 ^ nat e0 \<le> n else d \<le> n * 2 ^ nat (- e0))
         then e0 else e0 - 1)"

text \<open>The integer nearest to \<open>n / d\<close>, ties to even, for \<open>n \<ge> 0\<close> and \<open>d > 0\<close>.\<close>

definition round_half_even :: "int \<Rightarrow> int \<Rightarrow> int" where
  "round_half_even n d =
     (let q = n div d; r = n mod d
      in if 2 * r < d then q
         else if d < 2 * r then q + 1
         else if even q then q else q + 1)"

text \<open>
  The double nearest to \<open>n / d\<close>, for \<open>n \<ge> 0\<close> and \<open>d > 0\<close>, as mantissa and exponent: 53
  bits of precision, the exponent of the last place not below \<open>-1074\<close>, no upper bound yet.
\<close>

definition round_double :: "int \<Rightarrow> int \<Rightarrow> int \<times> int" where
  "round_double n d =
     (if n = 0 then (0, 0)
      else
        (let e = max (floor_log2 n d - 52) (- 1074);
             m = (if 0 \<le> e then round_half_even n (d * 2 ^ nat e)
                  else round_half_even (n * 2 ^ nat (- e)) d)
         in (m, e)))"

definition overflows :: "int \<times> int \<Rightarrow> bool" where
  "overflows me = (case me of (m, e) \<Rightarrow> 0 \<le> e \<and> 2 ^ 1024 \<le> m * 2 ^ nat e)"

text \<open>\<open>a / b\<close> on integers: correctly rounded, and raising where the result is too large.\<close>

definition py_truediv :: "int \<Rightarrow> int \<Rightarrow> py_error + pyfloat" where
  "py_truediv a b =
     (if b = 0 then Inl ZeroDivisionError
      else
        (let me = round_double \<bar>a\<bar> \<bar>b\<bar>
         in if overflows me then Inl OverflowError
            else Inr (Float (sgn a * sgn b * fst me) (snd me))))"

text \<open>\<open>x * 100\<close> on a float: the integer becomes \<open>100.0\<close>, the product is rounded.\<close>

fun py_mul_100 :: "pyfloat \<Rightarrow> pyfloat" where
  "py_mul_100 (Float m e) =
     (let me = (if 0 \<le> e then round_double (\<bar>m\<bar> * 100 * 2 ^ nat e) 1
                else round_double (\<bar>m\<bar> * 100) (2 ^ nat (- e)))
      in if overflows me then (if m < 0 then NegInf else PosInf)
         else Float (sgn m * fst me) (snd me))"
| "py_mul_100 PosInf = PosInf"
| "py_mul_100 NegInf = NegInf"

section \<open>Roadmaps (roadmap\_service.py)\<close>

text \<open>
  A stored roadmap, at the schema the generation prompt prescribes.  A day keeps, beside
  its number and topic, the other keys of its dictionary in order.  The key
  \<open>"completed_days"\<close> is absent until \<open>update_progress\<close> adds it.
\<close>

record day =
  day_number :: int
  topic :: string
  day_fields :: "(string \<times> json) list"

record week =
  week_number :: int
  goal :: string
  days :: "day list"

record roadmap =
  rm_id :: string
  rm_session_id :: string
  title :: string
  total_days :: int
  days_completed :: int
  progress_percentage :: pyfloat
  completed_days :: "int list option"
  weeks :: "week list"

type_synonym roadmap_store = "string \<rightharpoonup> roadmap"

definition ROADMAPS_DIR :: string where
  "ROADMAPS_DIR = path_join ''data'' ''roadmaps''"

definition save_roadmap :: "roadmap_store \<Rightarrow> roadmap \<Rightarrow> roadmap_store" where
  "save_roadmap store r = store(path_join ROADMAPS_DIR (rm_id r @ ''.json'') \<mapsto> r)"

definition get_roadmap :: "roadmap_store \<Rightarrow> string \<Rightarrow> roadmap option" where
  "get_roadmap store roadmap_id = store (path_join ROADMAPS_DIR (roadmap_id @ ''.json''))"

text \<open>
  \<open>update_progress\<close>: the exception raised by the division, or the returned value
  (\<open>None\<close> or the roadmap) with the store after the call.
\<close>

definition update_progress :: "roadmap_store \<Rightarrow> string \<Rightarrow> int
    \<Rightarrow> py_error + (roadmap option \<times> roadmap_store)" where
  "update_progress store roadmap_id dn =
     (case get_roadmap store roadmap_id of
        None \<Rightarrow> Inr (None, store)
      | Some r0 \<Rightarrow>
          (let r1 = (if completed_days r0 = None then r0\<lparr>completed_days := Some []\<rparr> else r0);
               cd = (case completed_days r1 of None \<Rightarrow> [] | Some l \<Rightarrow> l)
           in if dn \<notin> set cd then
                (let r2 = r1\<lparr>completed_days := Some (cd @ [dn])\<rparr>;
                     r3 = r2\<lparr>days_completed := int (length (cd @ [dn]))\<rparr>
                 in case py_truediv (days_completed r3) (total_days r3) of
                      Inl e \<Rightarrow> Inl e
                    | Inr q \<Rightarrow>
                        (let r4 = r3\<lparr>progress_percentage := py_mul_100 q\<rparr>
                         in Inr (Some r4, save_roadmap store r4)))
              else Inr (Some r1, store)))"

text \<open>
  The text clean-up of \<open>generate_roadmap\<close> (with the final \<open>strip\<close>) and of
  \<open>generate_week_content\<close> (without it), and \<open>json.loads(repair_json(text))\<close>.
\<close>

definition strip_fences :: "string \<Rightarrow> string" where
  "strip_fences raw =
     (let text = py_strip raw;
          text = (if startswith text fence_json then drop 7 text else text);
          text = (if endswith text fence then take (length text - 3) text else text)
      in text)"

definition clean_roadmap_text :: "string \<Rightarrow> string" where
  "clean_roadmap_text raw = py_strip (strip_fences raw)"

definition loads_repaired :: "collaborators \<Rightarrow> string \<Rightarrow> string + json" where
  "loads_repaired env text =
     (case repair_json env text of Inl msg \<Rightarrow> Inl msg | Inr repaired \<Rightarrow> json_loads env repaired)"

text \<open>\<open>d[k] = v\<close> on the items of a dictionary.\<close>

fun dict_set :: "string \<Rightarrow> json \<Rightarrow> (string \<times> json) list \<Rightarrow> (string \<times> json) list" where
  "dict_set k v [] = [(k, v)]"
| "dict_set k v ((k', v') # kvs) =
     (if k' = k then (k, v) # kvs else (k', v') # dict_set k v kvs)"

text \<open>The \<open>str\<close> of the \<open>TypeError\<close> that \<open>roadmap_data["id"] = ...\<close> raises on a value that is no dictionary.\<close>

fun item_assignment_error :: "json \<Rightarrow> string" where
  "item_assignment_error JNull = CHR 0x27 # ''NoneType'' @ CHR 0x27 # '' object does not support item assignment''"
| "item_assignment_error (JBool b) = CHR 0x27 # ''bool'' @ CHR 0x27 # '' object does not support item assignment''"
| "item_assignment_error (JInt i) = CHR 0x27 # ''int'' @ CHR 0x27 # '' object does not support item assignment''"
| "item_assignment_error (JFloat q) = CHR 0x27 # ''float'' @ CHR 0x27 # '' object does not support item assignment''"
| "item_assignment_error (JStr s) = CHR 0x27 # ''str'' @ CHR 0x27 # '' object does not support item assignment''"
| "item_assignment_error (JArr xs) = ''list indices must be integers or slices, not str''"
| "item_assignment_error (JObj kvs) = []"

text \<open>
  \<open>generate_roadmap\<close>, with the fresh identifier and the time of the call as arguments.
  The object returned is the one written to the file of its identifier.
\<close>

definition generate_roadmap :: "prompt_texts \<Rightarrow> collaborators \<Rightarrow> string \<Rightarrow> string \<Rightarrow> string
    \<Rightarrow> string \<Rightarrow> json payload" where
  "generate_roadmap tx env prompt session_id roadmap_id now =
     (case generate_content env
             (roadmap_system_prompt tx @ newline @ newline @ ''User Goal: '' @ prompt) of
        Inl msg \<Rightarrow> Error msg
      | Inr raw \<Rightarrow>
          (case loads_repaired env (clean_roadmap_text raw) of
             Inl msg \<Rightarrow> Error (''Failed to parse AI response: '' @ msg)
           | Inr roadmap_data \<Rightarrow>
               (case roadmap_data of
                  JObj kvs \<Rightarrow>
                    Payload (JObj (dict_set ''progress_percentage'' (JInt 0)
                      (dict_set ''days_completed'' (JInt 0)
                        (dict_set ''status'' (JStr ''active'')
                          (dict_set ''created_at'' (JStr now)
                            (dict_set ''session_id'' (JStr session_id)
                              (dict_set ''id'' (JStr roadmap_id) kvs)))))))
                | _ \<Rightarrow> Error (item_assignment_error roadmap_data))))"

text \<open>Python on JSON values: truth, iteration, \<open>d.get(k, default)\<close>, equality with an integer.\<close>

fun py_truthy :: "json \<Rightarrow> bool" where
  "py_truthy JNull = False"
| "py_truthy (JBool b) = b"
| "py_truthy (JInt i) = (i \<noteq> 0)"
| "py_truthy (JFloat q) = (q \<noteq> 0)"
| "py_truthy (JStr s) = (s \<noteq> [])"
| "py_truthy (JArr xs) = (xs \<noteq> [])"
| "py_truthy (JObj kvs) = (kvs \<noteq> [])"

fun py_iter :: "json \<Rightarrow> py_error + json list" where
  "py_iter (JArr xs) = Inr xs"
| "py_iter (JObj kvs) = Inr (map (\<lambda>kv. JStr (fst kv)) kvs)"
| "py_iter (JStr s) = Inr (map (\<lambda>c. JStr [c]) s)"
| "py_iter v = Inl TypeError"

fun py_get :: "json \<Rightarrow> string \<Rightarrow> json \<Rightarrow> py_error + json" where
  "py_get (JObj kvs) k dflt = Inr (case map_of kvs k of None \<Rightarrow> dflt | Some v \<Rightarrow> v)"
| "py_get v k dflt = Inl AttributeError"

fun py_eq_int :: "json \<Rightarrow> int \<Rightarrow> bool" where
  "py_eq_int (JInt i) n = (i = n)"
| "py_eq_int (JFloat q) n = (q = of_int n)"
| "py_eq_int (JBool b) n = ((if b then 1 else 0) = n)"
| "py_eq_int v n = False"

text \<open>\<open>next((d for d in new_days_data if d.get("day_number") == n), None)\<close>\<close>

fun find_day_data :: "json list \<Rightarrow> int \<Rightarrow> py_error + json option" where
  "find_day_data [] n = Inr None"
| "find_day_data (d # ds) n =
     (case py_get d ''day_number'' JNull of
        Inl e \<Rightarrow> Inl e
      | Inr v \<Rightarrow> if py_eq_int v n then Inr (Some d) else find_day_data ds n)"

text \<open>\<open>new_days_data[i] if i < len(new_days_data) else None\<close>, once the iteration has succeeded.\<close>

fun index_or_none :: "json \<Rightarrow> nat \<Rightarrow> py_error + json option" where
  "index_or_none (JArr xs) i = Inr (if i < length xs then Some (xs ! i) else None)"
| "index_or_none (JObj kvs) i = (if i < length kvs then Inl KeyError else Inr None)"
| "index_or_none (JStr s) i = Inr (if i < length s then Some (JStr [s ! i]) else None)"
| "index_or_none v i = Inl TypeError"

text \<open>\<open>day.update({...})\<close> with the five keys read by \<open>new_day_data.get\<close>.\<close>

definition update_day :: "day \<Rightarrow> json \<Rightarrow> py_error + day" where
  "update_day d nd =
     (case nd of
        JObj kvs \<Rightarrow>
          Inr (d\<lparr>day_fields :=
            dict_set ''questions'' (case map_of kvs ''questions'' of None \<Rightarrow> JArr [] | Some v \<Rightarrow> v)
              (dict_set ''reference_content''
                 (case map_of kvs ''reference_content'' of None \<Rightarrow> JStr [] | Some v \<Rightarrow> v)
                (dict_set ''youtube_video_url''
                   (case map_of kvs ''youtube_video_url'' of None \<Rightarrow> JStr [] | Some v \<Rightarrow> v)
                  (dict_set ''youtube_video_title''
                     (case map_of kvs ''youtube_video_title'' of None \<Rightarrow> JStr [] | Some v \<Rightarrow> v)
                    (dict_set ''learning_objectives''
                       (case map_of kvs ''learning_objectives'' of None \<Rightarrow> JArr [] | Some v \<Rightarrow> v)
                      (day_fields d)))))\<rparr>)
      | _ \<Rightarrow> Inl AttributeError)"

text \<open>The loop \<open>for i, day in enumerate(target_week["days"])\<close>, from index \<open>i\<close> on.\<close>

fun merge_days :: "json \<Rightarrow> nat \<Rightarrow> day list \<Rightarrow> py_error + day list" where
  "merge_days new_days_data i [] = Inr []"
| "merge_days new_days_data i (d # rest) =
     (case py_iter new_days_data of
        Inl e \<Rightarrow> Inl e
      | Inr ds \<Rightarrow>
          (case find_day_data ds (day_number d) of
             Inl e \<Rightarrow> Inl e
           | Inr found \<Rightarrow>
               (case (if (case found of None \<Rightarrow> True | Some nd \<Rightarrow> \<not> py_truthy nd)
                      then index_or_none new_days_data i else Inr found) of
                  Inl e \<Rightarrow> Inl e
                | Inr new_day_data \<Rightarrow>
                    (case (case new_day_data of
                             None \<Rightarrow> Inr d
                           | Some nd \<Rightarrow> if py_truthy nd then update_day d nd else Inr d) of
                       Inl e \<Rightarrow> Inl e
                     | Inr d' \<Rightarrow>
                         (case merge_days new_days_data (Suc i) rest of
                            Inl e \<Rightarrow> Inl e
                          | Inr rest' \<Rightarrow> Inr (d' # rest'))))))"

text \<open>The target week is the first with the number; its days are updated in place.\<close>

fun replace_week_days :: "int \<Rightarrow> day list \<Rightarrow> week list \<Rightarrow> week list" where
  "replace_week_days n ds [] = []"
| "replace_week_days n ds (w # ws) =
     (if week_number w = n then w\<lparr>days := ds\<rparr> # ws else w # replace_week_days n ds ws)"

text \<open>
  \<open>generate_week_content\<close> returns its payload (on success the week number) and the store
  after the call.
\<close>

definition generate_week_content :: "prompt_texts \<Rightarrow> collaborators \<Rightarrow> roadmap_store \<Rightarrow> string
    \<Rightarrow> int \<Rightarrow> int payload \<times> roadmap_store" where
  "generate_week_content tx env store roadmap_id wn =
     (case get_roadmap store roadmap_id of
        None \<Rightarrow> (Error ''Roadmap not found'', store)
      | Some r \<Rightarrow>
          (case find (\<lambda>w. week_number w = wn) (weeks r) of
             None \<Rightarrow> (Error (''Week '' @ str_int wn @ '' not found in roadmap outline''), store)
           | Some target_week \<Rightarrow>
               (let week_context = map (\<lambda>d. ''Day '' @ str_int (day_number d) @ '': '' @ topic d)
                                     (days target_week);
                    context_str = py_join newline week_context
                in case generate_content env
                          (week_system_prompt tx @ newline @ newline @ ''Roadmap Title: '' @ title r
                           @ newline @ ''Week '' @ str_int wn @ '' Outline:'' @ newline @ context_str) of
                     Inl msg \<Rightarrow> (Error msg, store)
                   | Inr raw \<Rightarrow>
                       (case loads_repaired env (strip_fences raw) of
                          Inl msg \<Rightarrow> (Error ''Failed to parse AI response for week content'', store)
                        | Inr new_days_data \<Rightarrow>
                            (case merge_days new_days_data 0 (days target_week) of
                               Inl e \<Rightarrow> (Error ''Failed to parse AI response for week content'', store)
                             | Inr ds \<Rightarrow>
                                 (Payload wn,
                                  save_roadmap store
                                    (r\<lparr>weeks := replace_week_days wn ds (weeks r)\<rparr>)))))))"

section \<open>The text extractor as the specification words it\<close>

text \<open>
  The texts of the PDF files of a listing, in order: for each name ending in \<open>.pdf\<close> whose
  parse succeeds, its elements joined by newlines.
\<close>

definition pdf_texts :: "collaborators \<Rightarrow> string \<Rightarrow> string list \<Rightarrow> string list" where
  "pdf_texts env session_dir filenames =
     List.map_filter
       (\<lambda>filename. if endswith (py_lower filename) ''.pdf''
                    then map_option (py_join newline)
                           (partition_pdf env (path_join session_dir filename))
                    else None)
       filenames"

text \<open>
  The specification has the per-PDF texts ``concatenated with newline separators'' and
  the result cut to 50000 characters.
\<close>

definition spec_session_text :: "collaborators \<Rightarrow> string \<Rightarrow> py_error + string" where
  "spec_session_text env session_id =
     (let session_dir = path_join UPLOAD_ROOT session_id
      in if \<not> path_exists env session_dir then Inr []
         else
           (case listdir env session_dir of
              None \<Rightarrow> Inl OSError
            | Some filenames \<Rightarrow>
                Inr (take 50000 (py_join newline (pdf_texts env session_dir filenames)))))"

section \<open>Example collaborators\<close>

text \<open>
  The upload folder holds a session \<open>s1\<close> with \<open>a.pdf\<close>, \<open>notes.txt\<close> and \<open>B.PDF\<close>, a session
  \<open>s3\<close> with \<open>notes.txt\<close> alone and a session \<open>d/e\<close> with \<open>c.pdf\<close>; listing any other path
  raises, among them the regular file \<open>uploads/s1/a.pdf\<close>.  The cache directory has no
  subdirectory \<open>d\<close>, so the cache file of session \<open>d/e\<close> cannot be opened for writing.  Each
  PDF parses to one element, its own path.  The model answers \<open>reply\<close>; \<open>json.loads\<close> accepts
  only \<open>[]\<close> and \<open>{}\<close>; \<open>repair_json\<close> turns every text into \<open>[]\<close>.
\<close>

definition example_env :: "string option \<Rightarrow> collaborators" where
  "example_env reply =
     \<lparr>path_exists = (\<lambda>p. p = ''uploads/s1'' \<or> p = ''uploads/s3'' \<or> p = ''uploads/d/e''
                         \<or> p = ''uploads/s1/a.pdf''),
      listdir = (\<lambda>p. if p = ''uploads/s1'' then Some [''a.pdf'', ''notes.txt'', ''B.PDF'']
                     else if p = ''uploads/s3'' then Some [''notes.txt'']
                     else if p = ''uploads/d/e'' then Some [''c.pdf'']
                     else None),
      can_write = (\<lambda>p. \<not> startswith p ''data/assessments/d/''),
      partition_pdf = (\<lambda>p. Some [p]),
      llm_invoke = (\<lambda>p. reply),
      json_loads = (\<lambda>s. if s = ''[]'' then Inr (JArr []) else if s = ''{}'' then Inr (JObj [])
                         else Inl ''Expecting value''),
      repair_json = (\<lambda>s. Inr ''[]''),
      generate_content = (\<lambda>p. case reply of None \<Rightarrow> Inl ''unavailable'' | Some t \<Rightarrow> Inr t)\<rparr>"

definition example_texts :: prompt_texts where
  "example_texts =
     \<lparr>level1_head = ''L1<'', level1_tail = ''>'', level2_head = ''L2<'', level2_tail = ''>'',
      level3_head = ''L3<'', level3_tail = ''>'', roadmap_system_prompt = ''roadmap'',
      week_system_prompt = ''week''\<rparr>"

section \<open>The response normaliser as the specification words it\<close>

text \<open>
  ``Attempts strict parsing; on failure, applies a lenient repair pass before
  re-parsing'': the value of the strict parse, or else the outcome of parsing the repaired
  text.
\<close>

definition spec_parse :: "collaborators \<Rightarrow> string \<Rightarrow> string + json" where
  "spec_parse env text =
     (case json_loads env text of Inr v \<Rightarrow> Inr v | Inl msg \<Rightarrow> loads_repaired env text)"

section \<open>Example roadmaps\<close>

text \<open>A three-day roadmap as \<open>generate_roadmap\<close> stores it, with one week and nothing completed.\<close>

definition example_roadmap :: roadmap where
  "example_roadmap =
     \<lparr>rm_id = ''r1'', rm_session_id = ''s1'', title = ''Python in three days'', total_days = 3,
      days_completed = 0, progress_percentage = Float 0 0, completed_days = None,
      weeks = [\<lparr>week_number = 1, goal = ''Basics'',
                days = [\<lparr>day_number = 1, topic = ''Types'', day_fields = []\<rparr>,
                        \<lparr>day_number = 2, topic = ''Functions'', day_fields = []\<rparr>,
                        \<lparr>day_number = 3, topic = ''Pandas'', day_fields = []\<rparr>]\<rparr>]\<rparr>"

definition example_store :: roadmap_store where
  "example_store = save_roadmap Map.empty example_roadmap"

section \<open>Verification of the progress tracker\<close>

subsection \<open>The random source\<close>

lemma randint_range: "a \<le> b \<Longrightarrow> a \<le> randint rho a b \<and> randint rho a b \<le> b"
proof -
  assume "a \<le> b"
  then have pos: "0 < b - a + 1" by simp
  have "0 \<le> int rho mod (b - a + 1)" using pos by simp
  moreover have "int rho mod (b - a + 1) < b - a + 1" using pos by (rule pos_mod_bound)
  ultimately show ?thesis unfolding randint_def by linarith
qed

lemma randint_onto: "a \<le> v \<Longrightarrow> v \<le> b \<Longrightarrow> randint (nat (v - a)) a b = v"
  unfolding randint_def by simp

subsection \<open>The threshold branch\<close>

lemma apply_thresholds_frame:
  "snd (snd (apply_thresholds rho lvl sc ud))
     = ud\<lparr>unlocked_level := unlocked_level (snd (snd (apply_thresholds rho lvl sc ud)))\<rparr>"
  by (simp add: apply_thresholds_def)

lemma apply_thresholds_mistakes:
  "apply_thresholds rho lvl sc (ud\<lparr>mistakes := x\<rparr>) =
     (fst (apply_thresholds rho lvl sc ud), fst (snd (apply_thresholds rho lvl sc ud)),
      (snd (snd (apply_thresholds rho lvl sc ud)))\<lparr>mistakes := x\<rparr>)"
  by (simp add: apply_thresholds_def)

lemma apply_thresholds_not_passed:
  "\<not> fst (snd (apply_thresholds rho lvl sc ud)) \<Longrightarrow> fst (apply_thresholds rho lvl sc ud) = 0"
  by (simp add: apply_thresholds_def split: if_splits)

subsection \<open>The mistake loop\<close>

lemma add_mistakes_returns:
  "list_all (\<lambda>m. arg_question m \<noteq> None) ms \<Longrightarrow> \<exists>l. add_mistakes level ts stored ms = Inr l"
  by (induction ms arbitrary: stored) auto

lemma add_mistakes_prefix:
  "add_mistakes level ts stored ms = Inr l \<Longrightarrow> prefix stored l"
proof (induction ms arbitrary: stored)
  case Nil
  then show ?case by simp
next
  case (Cons m ms)
  from Cons.prems(1) obtain q where q: "arg_question m = Some q"
    by (cases "arg_question m") auto
  show ?case
  proof (cases "list_ex (\<lambda>dm. me_question dm = q) stored")
    case True
    with Cons.prems q have "add_mistakes level ts stored ms = Inr l" by simp
    then show ?thesis by (rule Cons.IH)
  next
    case False
    let ?e = "\<lparr>me_question = q, me_correct_answer = arg_correct_answer m,
               me_explanation = arg_explanation m, me_user_answer = arg_user_answer m,
               me_level = level, me_comments = [], me_timestamp = ts\<rparr>"
    from False Cons.prems q have "add_mistakes level ts (stored @ [?e]) ms = Inr l"
      by simp
    then have "prefix (stored @ [?e]) l" by (rule Cons.IH)
    then show ?thesis by (rule append_prefixD)
  qed
qed

lemma add_mistakes_distinct:
  "add_mistakes level ts stored ms = Inr l \<Longrightarrow> distinct (map me_question stored)
    \<Longrightarrow> distinct (map me_question l)"
proof (induction ms arbitrary: stored)
  case Nil
  then show ?case by simp
next
  case (Cons m ms)
  from Cons.prems(1) obtain q where q: "arg_question m = Some q"
    by (cases "arg_question m") auto
  show ?case
  proof (cases "list_ex (\<lambda>dm. me_question dm = q) stored")
    case True
    with Cons.prems q have "add_mistakes level ts stored ms = Inr l" by simp
    then show ?thesis using Cons.IH Cons.prems(2) by blast
  next
    case False
    let ?e = "\<lparr>me_question = q, me_correct_answer = arg_correct_answer m,
               me_explanation = arg_explanation m, me_user_answer = arg_user_answer m,
               me_level = level, me_comments = [], me_timestamp = ts\<rparr>"
    from False Cons.prems q have run: "add_mistakes level ts (stored @ [?e]) ms = Inr l"
      by simp
    from False have "q \<notin> set (map me_question stored)"
      by (auto simp: list_ex_iff)
    with Cons.prems(2) have "distinct (map me_question (stored @ [?e]))"
      by simp
    with run show ?thesis using Cons.IH by blast
  qed
qed

lemma add_mistakes_questions:
  "add_mistakes level ts stored ms = Inr l \<Longrightarrow>
     set (map me_question l)
       = set (map me_question stored) \<union> {q. Some q \<in> arg_question ` set ms}"
proof (induction ms arbitrary: stored)
  case Nil
  then show ?case by simp
next
  case (Cons m ms)
  from Cons.prems(1) obtain q where q: "arg_question m = Some q"
    by (cases "arg_question m") auto
  have step: "{q'. Some q' \<in> arg_question ` set (m # ms)}
      = insert q {q'. Some q' \<in> arg_question ` set ms}"
    using q by auto
  show ?case
  proof (cases "list_ex (\<lambda>dm. me_question dm = q) stored")
    case True
    with Cons.prems q have "add_mistakes level ts stored ms = Inr l" by simp
    then have "set (map me_question l)
        = set (map me_question stored) \<union> {q. Some q \<in> arg_question ` set ms}"
      by (rule Cons.IH)
    moreover from True have "q \<in> set (map me_question stored)"
      by (auto simp: list_ex_iff)
    ultimately show ?thesis unfolding step by blast
  next
    case False
    let ?e = "\<lparr>me_question = q, me_correct_answer = arg_correct_answer m,
               me_explanation = arg_explanation m, me_user_answer = arg_user_answer m,
               me_level = level, me_comments = [], me_timestamp = ts\<rparr>"
    from False Cons.prems q have "add_mistakes level ts (stored @ [?e]) ms = Inr l"
      by simp
    then have "set (map me_question l)
        = set (map me_question (stored @ [?e])) \<union> {q. Some q \<in> arg_question ` set ms}"
      by (rule Cons.IH)
    then show ?thesis unfolding step by simp
  qed
qed

text \<open>
  Of several submitted mistakes with one question that is not stored yet, the entry
  written is made from the first.
\<close>

lemma add_mistakes_first:
  assumes "add_mistakes level ts stored ms = Inr l"
    and "find (\<lambda>m. arg_question m = Some q) ms = Some m"
    and "q \<notin> set (map me_question stored)"
  shows "\<lparr>me_question = q, me_correct_answer = arg_correct_answer m,
           me_explanation = arg_explanation m, me_user_answer = arg_user_answer m,
           me_level = level, me_comments = [], me_timestamp = ts\<rparr> \<in> set l"
  using assms
proof (induction ms arbitrary: stored)
  case Nil
  then show ?case by simp
next
  case (Cons m' ms)
  from Cons.prems(1) obtain q' where q': "arg_question m' = Some q'"
    by (cases "arg_question m'") auto
  let ?e' = "\<lparr>me_question = q', me_correct_answer = arg_correct_answer m',
               me_explanation = arg_explanation m', me_user_answer = arg_user_answer m',
               me_level = level, me_comments = [], me_timestamp = ts\<rparr>"
  show ?case
  proof (cases "q' = q")
    case True
    with Cons.prems(2) q' have m: "m = m'" by simp
    from Cons.prems(3) True have "\<not> list_ex (\<lambda>dm. me_question dm = q') stored"
      by (auto simp: list_ex_iff)
    with Cons.prems(1) q' have "add_mistakes level ts (stored @ [?e']) ms = Inr l"
      by simp
    then have "prefix (stored @ [?e']) l" by (rule add_mistakes_prefix)
    then have "set (stored @ [?e']) \<subseteq> set l" by (rule set_mono_prefix)
    then show ?thesis using True m by simp
  next
    case False
    with Cons.prems(2) q' have fnd: "find (\<lambda>m. arg_question m = Some q) ms = Some m"
      by simp
    show ?thesis
    proof (cases "list_ex (\<lambda>dm. me_question dm = q') stored")
      case True
      with Cons.prems(1) q' have "add_mistakes level ts stored ms = Inr l" by simp
      then show ?thesis using fnd Cons.prems(3) by (rule Cons.IH)
    next
      case nodup: False
      with Cons.prems(1) q' have run: "add_mistakes level ts (stored @ [?e']) ms = Inr l"
        by simp
      from Cons.prems(3) False have "q \<notin> set (map me_question (stored @ [?e']))"
        by simp
      with run fnd show ?thesis by (rule Cons.IH)
    qed
  qed
qed

lemma distinct_count_one:
  "distinct (map f xs) \<Longrightarrow> q \<in> set (map f xs) \<Longrightarrow> length (filter (\<lambda>e. f e = q) xs) = 1"
proof (induction xs)
  case Nil
  then show ?case by simp
next
  case (Cons x xs)
  show ?case
  proof (cases "f x = q")
    case True
    with Cons.prems(1) have "q \<notin> f ` set xs" by simp
    then have "\<forall>e \<in> set xs. f e \<noteq> q" by blast
    then have "filter (\<lambda>e. f e = q) xs = []" by (simp add: filter_empty_conv)
    with True show ?thesis by simp
  next
    case False
    with Cons show ?thesis by simp
  qed
qed

lemma set_comment_questions:
  "set_comment q c l = Some l' \<Longrightarrow> map me_question l' = map me_question l"
  by (induction l arbitrary: l') (auto split: if_splits)

subsection \<open>One submission\<close>

lemma normalised_user_data:
  "(let ud0 = (case load_user_progress pf sid of
                 None \<Rightarrow> \<lparr>xp = 0, unlocked_level = 1, history = [], mistakes = Some []\<rparr>
               | Some d \<Rightarrow> d)
    in if mistakes ud0 = None then ud0\<lparr>mistakes := Some []\<rparr> else ud0)
   = (get_progress pf sid)\<lparr>mistakes := Some (session_mistakes pf sid)\<rparr>"
  by (auto simp: get_progress_def session_mistakes_def split: option.splits)

text \<open>The function in terms of what \<open>get_progress\<close> reports before the call.\<close>

lemma submit_eq:
  "submit_assessment_result pf now rho sid lvl sc mx ms =
     (let old = get_progress pf sid;
          t = apply_thresholds rho lvl sc old;
          ev = \<lparr>ev_level = lvl, ev_score = sc, ev_max_score = mx, ev_passed = fst (snd t),
                ev_xp_gained = fst t, ev_timestamp = file_timestamp pf\<rparr>
      in case (case ms of
                 None \<Rightarrow> Inr (session_mistakes pf sid)
               | Some a \<Rightarrow> if a = [] then Inr (session_mistakes pf sid)
                           else add_mistakes lvl (file_timestamp pf) (session_mistakes pf sid) a) of
           Inl e \<Rightarrow> Inl e
         | Inr l \<Rightarrow>
             Inr (Some (now, (load_user_progress pf)(sid \<mapsto>
                     \<lparr>xp = xp old + fst t, unlocked_level = unlocked_level (snd (snd t)),
                       history = history old @ [ev], mistakes = Some l\<rparr>)),
                  \<lparr>res_passed = fst (snd t), res_xp_gained = fst t,
                    res_new_total_xp = xp old + fst t,
                    res_unlocked_level = unlocked_level (snd (snd t)), res_score = sc\<rparr>))"
proof -
  let ?old = "get_progress pf sid"
  obtain g p u where t: "apply_thresholds rho lvl sc ?old = (g, p, u)"
    by (cases "apply_thresholds rho lvl sc ?old")
  define U where "U = unlocked_level u"
  have "u = ?old\<lparr>unlocked_level := U\<rparr>"
    using apply_thresholds_frame [of rho lvl sc ?old] by (simp add: t U_def)
  then have u: "u = \<lparr>xp = xp ?old, unlocked_level = U, history = history ?old,
      mistakes = mistakes ?old\<rparr>"
    by simp
  have z: "\<not> p \<Longrightarrow> g = 0"
    using apply_thresholds_not_passed [of rho lvl sc ?old] by (simp add: t)
  show ?thesis
    unfolding submit_assessment_result_def Let_def normalised_user_data[unfolded Let_def]
      apply_thresholds_mistakes t
    by (simp add: save_user_progress_def u z split: sum.splits option.splits)
qed

lemma submit_returns:
  assumes "wf_mistakes ms"
  shows "\<exists>pf' r. submit_assessment_result pf now rho sid lvl sc mx ms = Inr (pf', r)"
proof (cases ms)
  case None
  then show ?thesis by (simp add: submit_eq Let_def)
next
  case (Some a)
  with assms have "list_all (\<lambda>m. arg_question m \<noteq> None) a"
    by (simp add: wf_mistakes_def)
  then obtain l where "add_mistakes lvl (file_timestamp pf) (session_mistakes pf sid) a = Inr l"
    using add_mistakes_returns by blast
  with Some show ?thesis by (simp add: submit_eq Let_def)
qed

lemma get_progress_saved:
  "get_progress (Some (now, p(sid \<mapsto> d))) sid = d"
  by (simp add: get_progress_def load_user_progress_def)

lemma session_mistakes_saved:
  "session_mistakes (Some (now, p(sid \<mapsto> d))) sid
     = (case mistakes d of None \<Rightarrow> [] | Some l \<Rightarrow> l)"
  by (simp add: session_mistakes_def load_user_progress_def)

lemma session_mistakes_other:
  "s \<noteq> sid \<Longrightarrow>
     session_mistakes (Some (now, (load_user_progress pf)(sid \<mapsto> d))) s = session_mistakes pf s"
  by (simp add: session_mistakes_def load_user_progress_def)

lemma submit_progress:
  assumes "submit_assessment_result pf now rho sid lvl sc mx ms = Inr (pf', r)"
  shows "xp (get_progress pf' sid) = xp (get_progress pf sid) + res_xp_gained r"
    and "unlocked_level (get_progress pf' sid)
           = unlocked_level (snd (snd (apply_thresholds rho lvl sc (get_progress pf sid))))"
    and "history (get_progress pf' sid) = history (get_progress pf sid) @
          [\<lparr>ev_level = lvl, ev_score = sc, ev_max_score = mx, ev_passed = res_passed r,
            ev_xp_gained = res_xp_gained r, ev_timestamp = file_timestamp pf\<rparr>]"
    and "res_passed r = fst (snd (apply_thresholds rho lvl sc (get_progress pf sid)))"
    and "res_xp_gained r = fst (apply_thresholds rho lvl sc (get_progress pf sid))"
    and "res_new_total_xp r = xp (get_progress pf' sid)"
    and "res_unlocked_level r = unlocked_level (get_progress pf' sid)"
    and "res_score r = sc"
    and "\<exists>p. pf' = Some (now, p) \<and> p sid = Some (get_progress pf' sid)
           \<and> (\<forall>s. s \<noteq> sid \<longrightarrow> p s = load_user_progress pf s)"
  using assms
  by (auto simp: submit_eq Let_def get_progress_saved split: sum.splits)

lemma submit_mistakes:
  assumes "submit_assessment_result pf now rho sid lvl sc mx ms = Inr (pf', r)"
  shows "add_mistakes lvl (file_timestamp pf) (session_mistakes pf sid)
            (case ms of None \<Rightarrow> [] | Some a \<Rightarrow> a) = Inr (session_mistakes pf' sid)"
    and "s \<noteq> sid \<Longrightarrow> session_mistakes pf' s = session_mistakes pf s"
  using assms
  by (auto simp: submit_eq Let_def session_mistakes_saved session_mistakes_other
      split: sum.splits option.splits if_splits)

lemma submit_unlocked_mono:
  assumes "submit_assessment_result pf now rho sid lvl sc mx ms = Inr (pf', r)"
  shows "unlocked_level (get_progress pf s) \<le> unlocked_level (get_progress pf' s)"
proof (cases "s = sid")
  case True
  show ?thesis unfolding True submit_progress(2) [OF assms]
    by (simp add: apply_thresholds_def)
next
  case False
  from submit_progress(9) [OF assms] obtain p
    where "pf' = Some (now, p)" and "\<forall>s. s \<noteq> sid \<longrightarrow> p s = load_user_progress pf s"
    by blast
  with False have "get_progress pf' s = get_progress pf s"
    by (simp add: get_progress_def load_user_progress_def)
  then show ?thesis by simp
qed

lemma submit_step_unlocked_mono:
  "unlocked_level (get_progress pf s) \<le> unlocked_level (get_progress (submit_step pf c) s)"
  unfolding submit_step_def
  by (auto split: sum.splits dest: submit_unlocked_mono)

lemma submit_distinct:
  assumes "submit_assessment_result pf now rho sid lvl sc mx ms = Inr (pf', r)"
    and "distinct (map me_question (session_mistakes pf s))"
  shows "distinct (map me_question (session_mistakes pf' s))"
proof (cases "s = sid")
  case True
  from submit_mistakes(1) [OF assms(1)] assms(2) show ?thesis
    unfolding True by (rule add_mistakes_distinct)
next
  case False
  then show ?thesis using submit_mistakes(2) [OF assms(1)] assms(2) by simp
qed

lemma submit_step_distinct:
  "distinct (map me_question (session_mistakes pf s))
    \<Longrightarrow> distinct (map me_question (session_mistakes (submit_step pf c) s))"
  unfolding submit_step_def
  by (auto split: sum.splits dest: submit_distinct)

lemma submit_run_distinct:
  "distinct (map me_question (session_mistakes pf s))
    \<Longrightarrow> distinct (map me_question (session_mistakes (submit_run pf cs) s))"
  by (induction cs arbitrary: pf) (simp_all add: submit_step_distinct)

lemma update_mistake_comment_questions:
  "map me_question (session_mistakes (fst (update_mistake_comment pf now s q c)) sid)
     = map me_question (session_mistakes pf sid)"
  unfolding update_mistake_comment_def Let_def
  by (auto simp: session_mistakes_def load_user_progress_def save_user_progress_def
      set_comment_questions split: option.splits)

subsection \<open>The claims about submissions\<close>

text \<open>
  C1.  A call of \<open>submit_assessment_result\<close> whose mistakes all carry a question returns.
  At level 1 it passes exactly when the score is at least 8, the XP gained then lies in
  \<open>[50, 100]\<close> and the unlocked level becomes the maximum of its old value and 2; at level 2
  the threshold is 7, the range \<open>[100, 150]\<close> and the unlocked level at least 3; at level 3
  it passes exactly when the score is positive, the range is \<open>[150, 200]\<close> and the unlocked
  level stays.  When the call does not pass, the XP gained is 0 and the stored XP and
  unlocked level are as before.  The returned total is the XP before the call plus the XP
  gained, and it is the XP stored.
\<close>

theorem submit_thresholds:
  assumes "wf_mistakes ms"
  shows "\<exists>pf' r. submit_assessment_result pf now rho sid lvl sc mx ms = Inr (pf', r)
     \<and> (lvl = 1 \<longrightarrow> (res_passed r \<longleftrightarrow> sc \<ge> 8)
           \<and> (res_passed r \<longrightarrow> 50 \<le> res_xp_gained r \<and> res_xp_gained r \<le> 100
                \<and> unlocked_level (get_progress pf' sid)
                     = max (unlocked_level (get_progress pf sid)) 2))
     \<and> (lvl = 2 \<longrightarrow> (res_passed r \<longleftrightarrow> sc \<ge> 7)
           \<and> (res_passed r \<longrightarrow> 100 \<le> res_xp_gained r \<and> res_xp_gained r \<le> 150
                \<and> unlocked_level (get_progress pf' sid)
                     = max (unlocked_level (get_progress pf sid)) 3))
     \<and> (lvl = 3 \<longrightarrow> (res_passed r \<longleftrightarrow> sc > 0)
           \<and> (res_passed r \<longrightarrow> 150 \<le> res_xp_gained r \<and> res_xp_gained r \<le> 200
                \<and> unlocked_level (get_progress pf' sid) = unlocked_level (get_progress pf sid)))
     \<and> (\<not> res_passed r \<longrightarrow> res_xp_gained r = 0
           \<and> xp (get_progress pf' sid) = xp (get_progress pf sid)
           \<and> unlocked_level (get_progress pf' sid) = unlocked_level (get_progress pf sid))
     \<and> res_new_total_xp r = xp (get_progress pf sid) + res_xp_gained r
     \<and> xp (get_progress pf' sid) = res_new_total_xp r
     \<and> res_unlocked_level r = unlocked_level (get_progress pf' sid)"
proof -
  from assms obtain pf' r
    where run: "submit_assessment_result pf now rho sid lvl sc mx ms = Inr (pf', r)"
    using submit_returns by blast
  let ?old = "get_progress pf sid"
  note f = submit_progress [OF run]
  have r1: "50 \<le> randint rho 50 100 \<and> randint rho 50 100 \<le> 100"
    by (rule randint_range) simp
  have r2: "100 \<le> randint rho 100 150 \<and> randint rho 100 150 \<le> 150"
    by (rule randint_range) simp
  have r3: "150 \<le> randint rho 150 200 \<and> randint rho 150 200 \<le> 200"
    by (rule randint_range) simp
  have l1: "lvl = 1 \<longrightarrow> (res_passed r \<longleftrightarrow> sc \<ge> 8)
           \<and> (res_passed r \<longrightarrow> 50 \<le> res_xp_gained r \<and> res_xp_gained r \<le> 100
                \<and> unlocked_level (get_progress pf' sid) = max (unlocked_level ?old) 2)"
    using r1 unfolding f by (simp add: apply_thresholds_def)
  have l2: "lvl = 2 \<longrightarrow> (res_passed r \<longleftrightarrow> sc \<ge> 7)
           \<and> (res_passed r \<longrightarrow> 100 \<le> res_xp_gained r \<and> res_xp_gained r \<le> 150
                \<and> unlocked_level (get_progress pf' sid) = max (unlocked_level ?old) 3)"
    using r2 unfolding f by (simp add: apply_thresholds_def)
  have l3: "lvl = 3 \<longrightarrow> (res_passed r \<longleftrightarrow> sc > 0)
           \<and> (res_passed r \<longrightarrow> 150 \<le> res_xp_gained r \<and> res_xp_gained r \<le> 200
                \<and> unlocked_level (get_progress pf' sid) = unlocked_level ?old)"
    using r3 unfolding f by (simp add: apply_thresholds_def)
  have fail: "\<not> res_passed r \<longrightarrow> res_xp_gained r = 0
           \<and> xp (get_progress pf' sid) = xp ?old
           \<and> unlocked_level (get_progress pf' sid) = unlocked_level ?old"
    unfolding f(1) unfolding f(2,4,5) by (simp add: apply_thresholds_def)
  have tot: "res_new_total_xp r = xp ?old + res_xp_gained r"
    unfolding f(6) by (rule f(1))
  from run l1 l2 l3 fail tot f(6,7) show ?thesis
    by (intro exI conjI) simp_all
qed

theorem submit_thresholds_witness:
  "wf_mistakes None \<and>
   (\<exists>pf' r. submit_assessment_result None ''17.5'' 7 ''s1'' 1 9 10 None = Inr (pf', r)
      \<and> res_passed r \<and> 50 \<le> res_xp_gained r \<and> res_xp_gained r \<le> 100
      \<and> unlocked_level (get_progress pf' ''s1'') = 2
      \<and> res_new_total_xp r = res_xp_gained r)"
proof -
  have wf: "wf_mistakes None" by (simp add: wf_mistakes_def)
  have old: "get_progress None ''s1''
      = \<lparr>xp = 0, unlocked_level = 1, history = [], mistakes = None\<rparr>"
    by (simp add: get_progress_def load_user_progress_def)
  from submit_thresholds [OF wf, of None "''17.5''" 7 "''s1''" 1 9 10] wf
  show ?thesis unfolding old by auto
qed

text \<open>
  C2.  The unlocked level that \<open>get_progress\<close> reports for a session never decreases: not
  over one call of \<open>submit_assessment_result\<close> (for this or another session, returning or
  raising), and so not over any sequence of calls.
\<close>

theorem unlocked_level_never_decreases:
  "unlocked_level (get_progress pf s) \<le> unlocked_level (get_progress (submit_step pf c) s)
   \<and> unlocked_level (get_progress pf s) \<le> unlocked_level (get_progress (submit_run pf cs) s)"
proof
  show "unlocked_level (get_progress pf s) \<le> unlocked_level (get_progress (submit_step pf c) s)"
    by (rule submit_step_unlocked_mono)
  show "unlocked_level (get_progress pf s) \<le> unlocked_level (get_progress (submit_run pf cs) s)"
  proof (induction cs arbitrary: pf)
    case Nil
    show ?case by simp
  next
    case (Cons c cs)
    have "unlocked_level (get_progress pf s)
        \<le> unlocked_level (get_progress (submit_step pf c) s)"
      by (rule submit_step_unlocked_mono)
    also have "\<dots> \<le> unlocked_level (get_progress (submit_run (submit_step pf c) cs) s)"
      by (rule Cons.IH)
    finally show ?case by simp
  qed
qed

theorem unlocked_level_never_decreases_witness:
  "unlocked_level (get_progress None ''s1'')
     \<le> unlocked_level (get_progress (submit_run None
          [\<lparr>call_now = ''17.5'', call_rho = 7, call_session = ''s1'', call_level = 1,
            call_score = 9, call_max_score = 10, call_mistakes = None\<rparr>,
           \<lparr>call_now = ''18.5'', call_rho = 3, call_session = ''s1'', call_level = 2,
            call_score = 2, call_max_score = 10, call_mistakes = None\<rparr>]) ''s1'')"
  using unlocked_level_never_decreases
    [of None "''s1''"
      "\<lparr>call_now = ''17.5'', call_rho = 7, call_session = ''s1'', call_level = 1,
        call_score = 9, call_max_score = 10, call_mistakes = None\<rparr>"]
  by (rule conjunct2)

text \<open>
  C3.  When the stored mistakes of a session have pairwise different questions and the
  submitted mistakes all carry a question, \<open>submit_assessment_result\<close> returns and the
  stored mistakes still have pairwise different questions.  The entries stored before are
  kept as they were, at the front of the list; every submitted question is the question
  of exactly one stored entry afterwards; and where a question was not stored before, the
  entry written comes from the first submitted mistake that has it.  The same uniqueness
  holds after any sequence of submissions and after \<open>update_mistake_comment\<close>.
\<close>

theorem mistakes_unique_by_question:
  assumes "distinct (map me_question (session_mistakes pf sid))" and "wf_mistakes ms"
  shows "\<exists>pf' r. submit_assessment_result pf now rho sid lvl sc mx ms = Inr (pf', r)
     \<and> distinct (map me_question (session_mistakes pf' sid))
     \<and> prefix (session_mistakes pf sid) (session_mistakes pf' sid)
     \<and> (\<forall>m \<in> set (case ms of None \<Rightarrow> [] | Some a \<Rightarrow> a). \<forall>q. arg_question m = Some q \<longrightarrow>
           length (filter (\<lambda>e. me_question e = q) (session_mistakes pf' sid)) = 1)
     \<and> (\<forall>q m. q \<notin> set (map me_question (session_mistakes pf sid))
           \<and> find (\<lambda>m. arg_question m = Some q) (case ms of None \<Rightarrow> [] | Some a \<Rightarrow> a) = Some m
          \<longrightarrow> \<lparr>me_question = q, me_correct_answer = arg_correct_answer m,
                 me_explanation = arg_explanation m, me_user_answer = arg_user_answer m,
                 me_level = lvl, me_comments = '''', me_timestamp = file_timestamp pf\<rparr>
                \<in> set (session_mistakes pf' sid))
     \<and> distinct (map me_question (session_mistakes (submit_run pf cs) sid))
     \<and> distinct (map me_question
          (session_mistakes (fst (update_mistake_comment pf now s q' c)) sid))"
proof -
  from assms(2) obtain pf' r
    where run: "submit_assessment_result pf now rho sid lvl sc mx ms = Inr (pf', r)"
    using submit_returns by blast
  let ?ms = "case ms of None \<Rightarrow> [] | Some a \<Rightarrow> a"
  note add = submit_mistakes(1) [OF run]
  have d: "distinct (map me_question (session_mistakes pf' sid))"
    using run assms(1) by (rule submit_distinct)
  have p: "prefix (session_mistakes pf sid) (session_mistakes pf' sid)"
    using add by (rule add_mistakes_prefix)
  have one: "\<forall>m \<in> set ?ms. \<forall>q. arg_question m = Some q \<longrightarrow>
           length (filter (\<lambda>e. me_question e = q) (session_mistakes pf' sid)) = 1"
  proof (intro ballI allI impI)
    fix m q assume "m \<in> set ?ms" and "arg_question m = Some q"
    then have "q \<in> {q. Some q \<in> arg_question ` set ?ms}" by force
    then have "q \<in> set (map me_question (session_mistakes pf' sid))"
      unfolding add_mistakes_questions [OF add] by simp
    with d show "length (filter (\<lambda>e. me_question e = q) (session_mistakes pf' sid)) = 1"
      by (rule distinct_count_one)
  qed
  have first: "\<forall>q m. q \<notin> set (map me_question (session_mistakes pf sid))
           \<and> find (\<lambda>m. arg_question m = Some q) ?ms = Some m
          \<longrightarrow> \<lparr>me_question = q, me_correct_answer = arg_correct_answer m,
                 me_explanation = arg_explanation m, me_user_answer = arg_user_answer m,
                 me_level = lvl, me_comments = '''', me_timestamp = file_timestamp pf\<rparr>
                \<in> set (session_mistakes pf' sid)"
    using add_mistakes_first [OF add] by blast
  have seq: "distinct (map me_question (session_mistakes (submit_run pf cs) sid))"
    using assms(1) by (rule submit_run_distinct)
  have upd: "distinct (map me_question
      (session_mistakes (fst (update_mistake_comment pf now s q' c)) sid))"
    using assms(1) by (simp add: update_mistake_comment_questions)
  from run d p one first seq upd show ?thesis by blast
qed

theorem mistakes_unique_by_question_witness:
  "distinct (map me_question (session_mistakes None ''s1''))
   \<and> wf_mistakes (Some [\<lparr>arg_question = Some ''Q'', arg_correct_answer = Some ''A'',
                          arg_explanation = None, arg_user_answer = Some ''B''\<rparr>,
                        \<lparr>arg_question = Some ''Q'', arg_correct_answer = Some ''C'',
                          arg_explanation = None, arg_user_answer = None\<rparr>])
   \<and> (\<exists>pf' r. submit_assessment_result None ''17.5'' 7 ''s1'' 1 9 10
         (Some [\<lparr>arg_question = Some ''Q'', arg_correct_answer = Some ''A'',
                  arg_explanation = None, arg_user_answer = Some ''B''\<rparr>,
                \<lparr>arg_question = Some ''Q'', arg_correct_answer = Some ''C'',
                  arg_explanation = None, arg_user_answer = None\<rparr>]) = Inr (pf', r)
        \<and> length (filter (\<lambda>e. me_question e = ''Q'') (session_mistakes pf' ''s1'')) = 1
        \<and> \<lparr>me_question = ''Q'', me_correct_answer = Some ''A'', me_explanation = None,
             me_user_answer = Some ''B'', me_level = 1, me_comments = '''',
             me_timestamp = ''0''\<rparr> \<in> set (session_mistakes pf' ''s1''))"
proof -
  let ?m1 = "\<lparr>arg_question = Some ''Q'', arg_correct_answer = Some ''A'',
               arg_explanation = None, arg_user_answer = Some ''B''\<rparr>"
  let ?m2 = "\<lparr>arg_question = Some ''Q'', arg_correct_answer = Some ''C'',
               arg_explanation = None, arg_user_answer = None\<rparr>"
  have old: "session_mistakes None ''s1'' = []"
    by (simp add: session_mistakes_def load_user_progress_def)
  have d: "distinct (map me_question (session_mistakes None ''s1''))"
    by (simp add: old)
  have wf: "wf_mistakes (Some [?m1, ?m2])"
    by (simp add: wf_mistakes_def)
  from mistakes_unique_by_question [OF d wf, of "''17.5''" 7 1 9 10 "[]" "''s1''" "''Q''" "''c''"]
  obtain pf' r
    where run: "submit_assessment_result None ''17.5'' 7 ''s1'' 1 9 10 (Some [?m1, ?m2])
        = Inr (pf', r)"
    and one: "\<forall>m \<in> set [?m1, ?m2]. \<forall>q. arg_question m = Some q \<longrightarrow>
           length (filter (\<lambda>e. me_question e = q) (session_mistakes pf' ''s1'')) = 1"
    and first: "\<forall>q m. q \<notin> set (map me_question (session_mistakes None ''s1''))
           \<and> find (\<lambda>m. arg_question m = Some q) [?m1, ?m2] = Some m
          \<longrightarrow> \<lparr>me_question = q, me_correct_answer = arg_correct_answer m,
                 me_explanation = arg_explanation m, me_user_answer = arg_user_answer m,
                 me_level = 1, me_comments = '''', me_timestamp = file_timestamp None\<rparr>
                \<in> set (session_mistakes pf' ''s1'')"
    by auto
  from one have c: "length (filter (\<lambda>e. me_question e = ''Q'') (session_mistakes pf' ''s1'')) = 1"
    by simp
  from first [rule_format, of "''Q''" ?m1]
  have f: "\<lparr>me_question = ''Q'', me_correct_answer = Some ''A'', me_explanation = None,
             me_user_answer = Some ''B'', me_level = 1, me_comments = '''',
             me_timestamp = ''0''\<rparr> \<in> set (session_mistakes pf' ''s1'')"
    by (simp add: old file_timestamp_def)
  from d wf run c f show ?thesis by blast
qed

text \<open>
  C10.  With a level other than 1, 2 and 3 (and mistakes that all carry a question) the
  call returns, does not pass and gains no XP; the stored XP and unlocked level are as
  before; the event, with that level, is appended to the history; and the file is written
  with the session's data, the other sessions as they were.
\<close>

theorem submit_unknown_level:
  assumes "lvl \<notin> {1, 2, 3}" and "wf_mistakes ms"
  shows "\<exists>pf' r p. submit_assessment_result pf now rho sid lvl sc mx ms = Inr (pf', r)
     \<and> \<not> res_passed r \<and> res_xp_gained r = 0
     \<and> xp (get_progress pf' sid) = xp (get_progress pf sid)
     \<and> unlocked_level (get_progress pf' sid) = unlocked_level (get_progress pf sid)
     \<and> history (get_progress pf' sid) = history (get_progress pf sid) @
          [\<lparr>ev_level = lvl, ev_score = sc, ev_max_score = mx, ev_passed = False,
            ev_xp_gained = 0, ev_timestamp = file_timestamp pf\<rparr>]
     \<and> pf' = Some (now, p) \<and> p sid = Some (get_progress pf' sid)
     \<and> (\<forall>s. s \<noteq> sid \<longrightarrow> p s = load_user_progress pf s)"
proof -
  from assms(2) obtain pf' r
    where run: "submit_assessment_result pf now rho sid lvl sc mx ms = Inr (pf', r)"
    using submit_returns by blast
  note f = submit_progress [OF run]
  from assms(1)
  have t: "apply_thresholds rho lvl sc (get_progress pf sid) = (0, False, get_progress pf sid)"
    by (simp add: apply_thresholds_def)
  have a: "\<not> res_passed r" and b: "res_xp_gained r = 0"
    using f(4,5) by (simp_all add: t)
  have c: "xp (get_progress pf' sid) = xp (get_progress pf sid)"
    using f(1) b by simp
  have d: "unlocked_level (get_progress pf' sid) = unlocked_level (get_progress pf sid)"
    using f(2) by (simp add: t)
  have e: "history (get_progress pf' sid) = history (get_progress pf sid) @
          [\<lparr>ev_level = lvl, ev_score = sc, ev_max_score = mx, ev_passed = False,
            ev_xp_gained = 0, ev_timestamp = file_timestamp pf\<rparr>]"
    using f(3) a b by simp
  from f(9) obtain p where p: "pf' = Some (now, p)" "p sid = Some (get_progress pf' sid)"
      "\<forall>s. s \<noteq> sid \<longrightarrow> p s = load_user_progress pf s"
    by blast
  from run a b c d e p show ?thesis by blast
qed

theorem submit_unknown_level_witness:
  "(4::int) \<notin> {1, 2, 3} \<and> wf_mistakes None \<and>
   (\<exists>pf' r. submit_assessment_result None ''17.5'' 7 ''s1'' 4 9 10 None = Inr (pf', r)
      \<and> \<not> res_passed r \<and> res_xp_gained r = 0
      \<and> history (get_progress pf' ''s1'') =
          [\<lparr>ev_level = 4, ev_score = 9, ev_max_score = 10, ev_passed = False,
            ev_xp_gained = 0, ev_timestamp = ''0''\<rparr>])"
proof -
  have lvl: "(4::int) \<notin> {1, 2, 3}" by simp
  have wf: "wf_mistakes None" by (simp add: wf_mistakes_def)
  have old: "get_progress None ''s1''
      = \<lparr>xp = 0, unlocked_level = 1, history = [], mistakes = None\<rparr>"
    by (simp add: get_progress_def load_user_progress_def)
  from submit_unknown_level [OF lvl wf, of None "''17.5''" 7 "''s1''" 9 10] lvl wf
  show ?thesis unfolding old by (auto simp: file_timestamp_def)
qed

section \<open>Verification of the assessment generation\<close>

subsection \<open>The text extractor\<close>

lemma foldl_add_pdf_text:
  "foldl (add_pdf_text env dir) acc fs = acc @ concat (pdf_texts env dir fs)"
  by (induction fs arbitrary: acc)
     (auto simp: pdf_texts_def add_pdf_text_def map_filter_simps split: option.splits)

lemma get_session_text_eq:
  "get_session_text env sid =
     (if \<not> path_exists env (path_join UPLOAD_ROOT sid) then Inr []
      else
        (case listdir env (path_join UPLOAD_ROOT sid) of
           None \<Rightarrow> Inl OSError
         | Some fs \<Rightarrow> Inr (take 50000 (concat (pdf_texts env (path_join UPLOAD_ROOT sid) fs)))))"
  by (simp add: get_session_text_def foldl_add_pdf_text split: option.splits)

lemma get_session_text_raises:
  "(\<exists>e. get_session_text env sid = Inl e) \<longleftrightarrow>
     path_exists env (path_join UPLOAD_ROOT sid) \<and> listdir env (path_join UPLOAD_ROOT sid) = None"
  by (auto simp: get_session_text_eq split: option.splits)

lemma pdf_texts_no_pdf:
  "\<forall>f \<in> set fs. \<not> endswith (py_lower f) ''.pdf'' \<Longrightarrow> pdf_texts env dir fs = []"
  by (induction fs) (auto simp: pdf_texts_def map_filter_simps)

lemma pdf_texts_append:
  "pdf_texts env d (fs1 @ fs2) = pdf_texts env d fs1 @ pdf_texts env d fs2"
  by (induction fs1) (auto simp: pdf_texts_def map_filter_simps split: option.splits)

lemma pdf_texts_Cons:
  "pdf_texts env d (f # fs) =
     (if endswith (py_lower f) ''.pdf''
      then (case partition_pdf env (path_join d f) of
              None \<Rightarrow> [] | Some elements \<Rightarrow> [py_join newline elements])
      else []) @ pdf_texts env d fs"
  by (simp add: pdf_texts_def map_filter_simps split: option.splits)

lemma example_dir: "path_join UPLOAD_ROOT ''s1'' = ''uploads/s1''"
  by (simp add: path_join_def UPLOAD_ROOT_def startswith_def endswith_def)

lemma example_exists: "path_exists (example_env reply) ''uploads/s1''"
  by (simp add: example_env_def)

lemma example_listdir:
  "listdir (example_env reply) ''uploads/s1'' = Some [''a.pdf'', ''notes.txt'', ''B.PDF'']"
  by (simp add: example_env_def)

lemma example_partition: "partition_pdf (example_env reply) p = Some [p]"
  by (simp add: example_env_def)

lemma example_pdf_texts:
  "pdf_texts (example_env reply) ''uploads/s1'' [''a.pdf'', ''notes.txt'', ''B.PDF'']
     = [''uploads/s1/a.pdf'', ''uploads/s1/B.PDF'']"
  by (simp add: pdf_texts_Cons example_partition py_lower_def endswith_def
      path_join_def startswith_def pdf_texts_def)

lemma example_session_text:
  "get_session_text (example_env reply) ''s1'' = Inr ''uploads/s1/a.pdfuploads/s1/B.PDF''"
  by (simp add: get_session_text_eq example_dir example_exists example_listdir example_pdf_texts)

lemma example_no_folder: "get_session_text (example_env reply) ''s2'' = Inr []"
  by (simp add: get_session_text_eq path_join_def UPLOAD_ROOT_def startswith_def endswith_def
      example_env_def)

lemma example_no_pdf: "get_session_text (example_env reply) ''s3'' = Inr []"
  by (simp add: get_session_text_eq pdf_texts_Cons py_lower_def endswith_def
      path_join_def startswith_def UPLOAD_ROOT_def example_env_def pdf_texts_def)

text \<open>
  C8, as the specification states it, fails.  For the session \<open>s1\<close> of the example, with two
  PDF files of one element each, \<open>get_session_text\<close> returns the two texts one directly after
  the other; with a newline separator between the per-PDF texts the result would differ.
\<close>

theorem session_text_counterexample:
  "get_session_text (example_env None) ''s1'' = Inr ''uploads/s1/a.pdfuploads/s1/B.PDF''
   \<and> spec_session_text (example_env None) ''s1''
       = Inr (''uploads/s1/a.pdf'' @ [CHR 0x0A] @ ''uploads/s1/B.PDF'')
   \<and> get_session_text (example_env None) ''s1'' \<noteq> spec_session_text (example_env None) ''s1''"
proof -
  have a: "get_session_text (example_env None) ''s1'' = Inr ''uploads/s1/a.pdfuploads/s1/B.PDF''"
    by (rule example_session_text)
  have b: "spec_session_text (example_env None) ''s1''
       = Inr (''uploads/s1/a.pdf'' @ [CHR 0x0A] @ ''uploads/s1/B.PDF'')"
    by (simp add: spec_session_text_def example_dir example_exists example_listdir
        example_pdf_texts newline_def)
  show ?thesis unfolding a b by simp
qed

text \<open>
  C8, amended.  \<open>get_session_text\<close> returns the per-PDF texts concatenated directly, with no
  separator between files (the newlines separate the elements inside one file), cut to
  at most 50000 characters.  A file whose parse raises contributes nothing and the files
  before and after it contribute as they would without it.  The result is empty when
  the session folder does not exist and when its listing holds no name ending in \<open>.pdf\<close>.
  (Where the folder exists and listing it raises, the exception is raised to the caller.)
\<close>

theorem session_text:
  "get_session_text env sid =
     (if \<not> path_exists env (path_join UPLOAD_ROOT sid) then Inr []
      else
        (case listdir env (path_join UPLOAD_ROOT sid) of
           None \<Rightarrow> Inl OSError
         | Some fs \<Rightarrow> Inr (take 50000 (concat (pdf_texts env (path_join UPLOAD_ROOT sid) fs)))))
   \<and> (\<forall>t. get_session_text env sid = Inr t \<longrightarrow> length t \<le> 50000)
   \<and> (\<not> path_exists env (path_join UPLOAD_ROOT sid) \<longrightarrow> get_session_text env sid = Inr [])
   \<and> (\<forall>fs. listdir env (path_join UPLOAD_ROOT sid) = Some fs
          \<and> (\<forall>f \<in> set fs. \<not> endswith (py_lower f) ''.pdf'')
        \<longrightarrow> get_session_text env sid = Inr [])
   \<and> pdf_texts env d (fs1 @ f # fs2) =
       pdf_texts env d fs1
       @ (if endswith (py_lower f) ''.pdf''
          then (case partition_pdf env (path_join d f) of
                  None \<Rightarrow> [] | Some elements \<Rightarrow> [py_join newline elements])
          else [])
       @ pdf_texts env d fs2"
proof -
  note eq = get_session_text_eq [of env sid]
  have len: "\<forall>t. get_session_text env sid = Inr t \<longrightarrow> length t \<le> 50000"
    unfolding eq by (auto split: option.splits if_splits)
  have missing: "\<not> path_exists env (path_join UPLOAD_ROOT sid)
      \<longrightarrow> get_session_text env sid = Inr []"
    unfolding eq by simp
  have nopdf: "\<forall>fs. listdir env (path_join UPLOAD_ROOT sid) = Some fs
          \<and> (\<forall>f \<in> set fs. \<not> endswith (py_lower f) ''.pdf'')
        \<longrightarrow> get_session_text env sid = Inr []"
    unfolding eq by (auto simp: pdf_texts_no_pdf)
  have split: "pdf_texts env d (fs1 @ f # fs2) =
       pdf_texts env d fs1
       @ (if endswith (py_lower f) ''.pdf''
          then (case partition_pdf env (path_join d f) of
                  None \<Rightarrow> [] | Some elements \<Rightarrow> [py_join newline elements])
          else [])
       @ pdf_texts env d fs2"
    unfolding pdf_texts_append pdf_texts_Cons by simp
  from eq len missing nopdf split show ?thesis by blast
qed

theorem session_text_witness:
  "\<not> path_exists (example_env None) (path_join UPLOAD_ROOT ''s2'')
   \<and> get_session_text (example_env None) ''s2'' = Inr []
   \<and> listdir (example_env None) (path_join UPLOAD_ROOT ''s3'') = Some [''notes.txt'']
   \<and> get_session_text (example_env None) ''s3'' = Inr []
   \<and> get_session_text (example_env None) ''s1'' = Inr ''uploads/s1/a.pdfuploads/s1/B.PDF''
   \<and> length ''uploads/s1/a.pdfuploads/s1/B.PDF'' \<le> 50000"
proof -
  have none: "\<not> path_exists (example_env None) (path_join UPLOAD_ROOT ''s2'')"
    by (simp add: example_env_def path_join_def UPLOAD_ROOT_def startswith_def endswith_def)
  have l3: "listdir (example_env None) (path_join UPLOAD_ROOT ''s3'') = Some [''notes.txt'']"
    by (simp add: example_env_def path_join_def UPLOAD_ROOT_def startswith_def endswith_def)
  have n3: "\<forall>f \<in> set [''notes.txt'']. \<not> endswith (py_lower f) ''.pdf''"
    by (simp add: py_lower_def endswith_def)
  from session_text [of "example_env None" "''s2''"] none
  have a: "get_session_text (example_env None) ''s2'' = Inr []" by blast
  from session_text [of "example_env None" "''s3''"] l3 n3
  have b: "get_session_text (example_env None) ''s3'' = Inr []" by blast
  from session_text [of "example_env None" "''s1''"] example_session_text
  have c: "length ''uploads/s1/a.pdfuploads/s1/B.PDF'' \<le> 50000" by blast
  from none a l3 b c example_session_text show ?thesis by blast
qed

subsection \<open>The cache\<close>

lemma generate_assessment_cached:
  "cache (cache_file sid lvl) = Some a \<Longrightarrow>
     generate_assessment tx env cache sid lvl = Inr (Payload a, cache, [])"
  by (simp add: generate_assessment_def)

lemma generate_assessment_payload:
  assumes "generate_assessment tx env cache sid lvl = Inr (Payload a, cache', calls)"
  shows "cache' (cache_file sid lvl) = Some a"
  using assms
  by (auto simp: generate_assessment_def Let_def split: option.splits if_splits sum.splits)

lemma generate_assessment_error:
  assumes "generate_assessment tx env cache sid lvl = Inr (Error msg, cache', calls)"
  shows "cache' = cache \<and> cache (cache_file sid lvl) = None"
  using assms
  by (auto simp: generate_assessment_def Let_def split: option.splits if_splits sum.splits)

lemma generate_assessment_raises:
  "(\<exists>e. generate_assessment tx env cache sid lvl = Inl e) \<longleftrightarrow>
     cache (cache_file sid lvl) = None \<and> (\<exists>e. get_session_text env sid = Inl e)"
  by (auto simp: generate_assessment_def Let_def split: option.splits if_splits sum.splits)

lemma generate_assessment_uncached_calls:
  assumes "cache (cache_file sid lvl) = None" and "get_session_text env sid = Inr text"
    and "text \<noteq> []"
  shows "\<exists>r. generate_assessment tx env cache sid lvl = Inr r
     \<and> snd (snd r) = [get_assessment_prompt tx lvl text]"
  using assms
  by (auto simp: generate_assessment_def Let_def split: option.splits if_splits sum.splits)

text \<open>
  C4.  When the cache holds an entry for the session and level, \<open>generate_assessment\<close>
  returns that entry as it is, leaves the cache as it is and sends no prompt to the model,
  whatever the collaborators would answer.  Hence after a call that returned an assessment,
  a second call for the same session and level returns the same assessment and sends no
  prompt.
\<close>

theorem cached_assessment_returned:
  "(cache (cache_file sid lvl) = Some a \<longrightarrow>
      generate_assessment tx env cache sid lvl = Inr (Payload a, cache, []))
   \<and> (generate_assessment tx env cache sid lvl = Inr (Payload a, cache', calls) \<longrightarrow>
      generate_assessment tx env' cache' sid lvl = Inr (Payload a, cache', []))"
proof (intro conjI impI)
  assume "cache (cache_file sid lvl) = Some a"
  then show "generate_assessment tx env cache sid lvl = Inr (Payload a, cache, [])"
    by (rule generate_assessment_cached)
next
  assume "generate_assessment tx env cache sid lvl = Inr (Payload a, cache', calls)"
  then have "cache' (cache_file sid lvl) = Some a"
    by (rule generate_assessment_payload)
  then show "generate_assessment tx env' cache' sid lvl = Inr (Payload a, cache', [])"
    by (rule generate_assessment_cached)
qed

lemma example_prompt:
  "get_assessment_prompt example_texts 1 ''uploads/s1/a.pdfuploads/s1/B.PDF''
     = ''L1<uploads/s1/a.pdfuploads/s1/B.PDF>''"
  by (simp add: get_assessment_prompt_def example_texts_def)

lemma clean_markdown_fenced_example: "clean_markdown ''```json[]```'' = ''[]''"
  by (simp add: clean_markdown_def py_strip_def py_isspace_def startswith_def fence_json_def)

lemma example_cache_file: "cache_file ''s1'' 1 = ''data/assessments/s1_lvl1.json''"
  by (simp add: cache_file_def ASSESSMENT_DIR_def path_join_def startswith_def endswith_def
      str_int_def str_nat.simps)

lemma example_can_write: "can_write (example_env reply) (cache_file ''s1'' 1)"
  by (simp add: example_cache_file example_env_def startswith_def)

lemma example_first_call:
  "generate_assessment example_texts (example_env (Some ''```json[]```'')) Map.empty ''s1'' 1
     = Inr (Payload \<lparr>a_level = 1, a_timer_seconds = 600, a_questions = JArr []\<rparr>,
        [cache_file ''s1'' 1 \<mapsto> \<lparr>a_level = 1, a_timer_seconds = 600, a_questions = JArr []\<rparr>],
        [''L1<uploads/s1/a.pdfuploads/s1/B.PDF>''])"
proof -
  have a: "llm_invoke (example_env (Some ''```json[]```'')) p = Some ''```json[]```''" for p
    by (simp add: example_env_def)
  have b: "json_loads (example_env (Some ''```json[]```'')) ''[]'' = Inr (JArr [])"
    by (simp add: example_env_def)
  show ?thesis
    by (simp add: generate_assessment_def example_session_text example_prompt a b
        clean_markdown_fenced_example example_can_write Let_def)
qed

theorem cached_assessment_returned_witness:
  "generate_assessment example_texts (example_env (Some ''```json[]```'')) Map.empty ''s1'' 1
     = Inr (Payload \<lparr>a_level = 1, a_timer_seconds = 600, a_questions = JArr []\<rparr>,
        [cache_file ''s1'' 1 \<mapsto> \<lparr>a_level = 1, a_timer_seconds = 600, a_questions = JArr []\<rparr>],
        [''L1<uploads/s1/a.pdfuploads/s1/B.PDF>''])
   \<and> generate_assessment example_texts (example_env None)
        [cache_file ''s1'' 1 \<mapsto> \<lparr>a_level = 1, a_timer_seconds = 600, a_questions = JArr []\<rparr>]
        ''s1'' 1
     = Inr (Payload \<lparr>a_level = 1, a_timer_seconds = 600, a_questions = JArr []\<rparr>,
        [cache_file ''s1'' 1 \<mapsto> \<lparr>a_level = 1, a_timer_seconds = 600, a_questions = JArr []\<rparr>],
        [])"
  using example_first_call
    cached_assessment_returned [of Map.empty "''s1''" 1
      "\<lparr>a_level = 1, a_timer_seconds = 600, a_questions = JArr []\<rparr>" example_texts
      "example_env (Some ''```json[]```'')"
      "[cache_file ''s1'' 1 \<mapsto> \<lparr>a_level = 1, a_timer_seconds = 600, a_questions = JArr []\<rparr>]"
      "[''L1<uploads/s1/a.pdfuploads/s1/B.PDF>'']" "example_env None"]
  by blast

subsection \<open>Failures\<close>

lemma example_listing_raises:
  "path_exists (example_env reply) (path_join UPLOAD_ROOT ''s1/a.pdf'')
   \<and> listdir (example_env reply) (path_join UPLOAD_ROOT ''s1/a.pdf'') = None"
  by (simp add: example_env_def path_join_def UPLOAD_ROOT_def startswith_def endswith_def)

text \<open>
  C5, as the specification states it, fails.  \<open>get_session_text\<close> is called outside the \<open>try\<close>
  of \<open>generate_assessment\<close> and lists the session path outside any \<open>try\<close> of its own.  For
  the session id \<open>s1/a.pdf\<close> of the example, whose path exists and is a regular file, the
  listing raises and so does \<open>generate_assessment\<close>.
\<close>

theorem generation_failure_counterexample:
  "path_exists (example_env None) ''uploads/s1/a.pdf''
   \<and> listdir (example_env None) ''uploads/s1/a.pdf'' = None
   \<and> get_session_text (example_env None) ''s1/a.pdf'' = Inl OSError
   \<and> generate_assessment example_texts (example_env None) Map.empty ''s1/a.pdf'' 1 = Inl OSError"
proof -
  have d: "path_join UPLOAD_ROOT ''s1/a.pdf'' = ''uploads/s1/a.pdf''"
    by (simp add: path_join_def UPLOAD_ROOT_def startswith_def endswith_def)
  have e: "path_exists (example_env None) ''uploads/s1/a.pdf''"
    and l: "listdir (example_env None) ''uploads/s1/a.pdf'' = None"
    by (simp_all add: example_env_def)
  have t: "get_session_text (example_env None) ''s1/a.pdf'' = Inl OSError"
    by (simp add: get_session_text_eq d e l)
  have g: "generate_assessment example_texts (example_env None) Map.empty ''s1/a.pdf'' 1
      = Inl OSError"
    by (simp add: generate_assessment_def t)
  from e l t g show ?thesis by blast
qed

text \<open>
  C5, amended.  \<open>generate_assessment\<close> raises exactly when there is no cache entry, the
  session path exists and listing it raises.  A failure of the PDF parser, of the model
  call, of the parse of the answer or of the write of the cache file never makes it
  raise.  Without a cache entry: when the extracted text is empty it returns the error
  \<open>No documents found for this session.\<close> and sends no prompt; when the model call raises,
  the cleaned answer does not parse or the cache file cannot be written it returns the
  error \<open>Failed to generate assessment.\<close>; whenever it returns an error the cache is
  unchanged, so a later call for a session with text sends its prompt to the model again.
\<close>

theorem generation_failure_not_cached:
  "((\<exists>e. generate_assessment tx env cache sid lvl = Inl e) \<longleftrightarrow>
      cache (cache_file sid lvl) = None \<and> path_exists env (path_join UPLOAD_ROOT sid)
      \<and> listdir env (path_join UPLOAD_ROOT sid) = None)
   \<and> (cache (cache_file sid lvl) = None \<and> get_session_text env sid = Inr [] \<longrightarrow>
        generate_assessment tx env cache sid lvl
          = Inr (Error ''No documents found for this session.'', cache, []))
   \<and> (\<forall>text. cache (cache_file sid lvl) = None \<and> get_session_text env sid = Inr text
          \<and> text \<noteq> []
          \<and> (llm_invoke env (get_assessment_prompt tx lvl text) = None
              \<or> (\<exists>raw msg. llm_invoke env (get_assessment_prompt tx lvl text) = Some raw
                    \<and> json_loads env (clean_markdown raw) = Inl msg)
              \<or> (\<exists>raw v. llm_invoke env (get_assessment_prompt tx lvl text) = Some raw
                    \<and> json_loads env (clean_markdown raw) = Inr v
                    \<and> \<not> can_write env (cache_file sid lvl)))
        \<longrightarrow> generate_assessment tx env cache sid lvl
              = Inr (Error ''Failed to generate assessment.'', cache,
                     [get_assessment_prompt tx lvl text]))
   \<and> (\<forall>msg cache' calls.
         generate_assessment tx env cache sid lvl = Inr (Error msg, cache', calls)
         \<longrightarrow> cache' = cache
             \<and> (\<forall>text'. get_session_text env' sid = Inr text' \<and> text' \<noteq> [] \<longrightarrow>
                  (\<exists>r. generate_assessment tx env' cache' sid lvl = Inr r
                     \<and> snd (snd r) = [get_assessment_prompt tx lvl text'])))"
proof (intro conjI allI impI)
  show "(\<exists>e. generate_assessment tx env cache sid lvl = Inl e) \<longleftrightarrow>
      cache (cache_file sid lvl) = None \<and> path_exists env (path_join UPLOAD_ROOT sid)
      \<and> listdir env (path_join UPLOAD_ROOT sid) = None"
    unfolding generate_assessment_raises get_session_text_raises ..
next
  assume "cache (cache_file sid lvl) = None \<and> get_session_text env sid = Inr []"
  then show "generate_assessment tx env cache sid lvl
      = Inr (Error ''No documents found for this session.'', cache, [])"
    by (simp add: generate_assessment_def)
next
  fix ctx
  assume "cache (cache_file sid lvl) = None \<and> get_session_text env sid = Inr ctx
          \<and> ctx \<noteq> []
          \<and> (llm_invoke env (get_assessment_prompt tx lvl ctx) = None
              \<or> (\<exists>raw msg. llm_invoke env (get_assessment_prompt tx lvl ctx) = Some raw
                    \<and> json_loads env (clean_markdown raw) = Inl msg)
              \<or> (\<exists>raw v. llm_invoke env (get_assessment_prompt tx lvl ctx) = Some raw
                    \<and> json_loads env (clean_markdown raw) = Inr v
                    \<and> \<not> can_write env (cache_file sid lvl)))"
  then show "generate_assessment tx env cache sid lvl
              = Inr (Error ''Failed to generate assessment.'', cache,
                     [get_assessment_prompt tx lvl ctx])"
    by (auto simp: generate_assessment_def Let_def)
next
  fix msg cache' calls
  assume "generate_assessment tx env cache sid lvl = Inr (Error msg, cache', calls)"
  then show "cache' = cache" using generate_assessment_error by blast
next
  fix msg cache' calls text'
  assume err: "generate_assessment tx env cache sid lvl = Inr (Error msg, cache', calls)"
    and nonempty: "get_session_text env' sid = Inr text' \<and> text' \<noteq> []"
  from err have "cache' = cache" "cache (cache_file sid lvl) = None"
    using generate_assessment_error by blast+
  then have "cache' (cache_file sid lvl) = None" by simp
  moreover from nonempty have "get_session_text env' sid = Inr text'" and "text' \<noteq> []"
    by simp_all
  ultimately show "\<exists>r. generate_assessment tx env' cache' sid lvl = Inr r
                     \<and> snd (snd r) = [get_assessment_prompt tx lvl text']"
    by (rule generate_assessment_uncached_calls)
qed

theorem generation_failure_not_cached_witness:
  "generate_assessment example_texts (example_env None) Map.empty ''s1'' 1
     = Inr (Error ''Failed to generate assessment.'', Map.empty,
            [''L1<uploads/s1/a.pdfuploads/s1/B.PDF>''])
   \<and> generate_assessment example_texts (example_env (Some ''[]'')) Map.empty ''d/e'' 1
     = Inr (Error ''Failed to generate assessment.'', Map.empty, [''L1<uploads/d/e/c.pdf>''])
   \<and> generate_assessment example_texts (example_env None) Map.empty ''s3'' 1
     = Inr (Error ''No documents found for this session.'', Map.empty, [])
   \<and> (\<exists>r. generate_assessment example_texts (example_env (Some ''[]'')) Map.empty ''s1'' 1 = Inr r
         \<and> snd (snd r) = [''L1<uploads/s1/a.pdfuploads/s1/B.PDF>''])"
proof -
  have none: "(Map.empty :: assessment_cache) k = None" for k by simp
  have llm: "llm_invoke (example_env None) p = None" for p
    by (simp add: example_env_def)
  have llm': "llm_invoke (example_env (Some ''[]'')) p = Some ''[]''" for p
    by (simp add: example_env_def)
  have de: "get_session_text (example_env (Some ''[]'')) ''d/e'' = Inr ''uploads/d/e/c.pdf''"
    by (simp add: get_session_text_eq pdf_texts_Cons py_lower_def endswith_def
        path_join_def startswith_def UPLOAD_ROOT_def example_env_def pdf_texts_def)
  have pde: "get_assessment_prompt example_texts 1 ''uploads/d/e/c.pdf'' = ''L1<uploads/d/e/c.pdf>''"
    by (simp add: get_assessment_prompt_def example_texts_def)
  have cm: "clean_markdown ''[]'' = ''[]''"
    by (simp add: clean_markdown_def py_strip_def py_isspace_def startswith_def fence_json_def
        fence_def)
  have ld: "json_loads (example_env (Some ''[]'')) ''[]'' = Inr (JArr [])"
    by (simp add: example_env_def)
  have cw: "\<not> can_write (example_env (Some ''[]'')) (cache_file ''d/e'' 1)"
    by (simp add: cache_file_def ASSESSMENT_DIR_def path_join_def startswith_def endswith_def
        str_int_def str_nat.simps example_env_def)
  note w1 = generation_failure_not_cached [where cache = Map.empty and sid = "''s1''" and lvl = 1
      and env = "example_env None" and tx = example_texts and env' = "example_env (Some ''[]'')"]
  note w2 = generation_failure_not_cached [where cache = Map.empty and sid = "''d/e''" and lvl = 1
      and env = "example_env (Some ''[]'')" and tx = example_texts and env' = "example_env None"]
  note w3 = generation_failure_not_cached [where cache = Map.empty and sid = "''s3''" and lvl = 1
      and env = "example_env None" and tx = example_texts and env' = "example_env None"]
  from w1 none llm example_session_text [of None]
  have a: "generate_assessment example_texts (example_env None) Map.empty ''s1'' 1
       = Inr (Error ''Failed to generate assessment.'', Map.empty,
          [get_assessment_prompt example_texts 1 ''uploads/s1/a.pdfuploads/s1/B.PDF''])"
    by auto
  have "\<exists>raw v. llm_invoke (example_env (Some ''[]''))
                   (get_assessment_prompt example_texts 1 ''uploads/d/e/c.pdf'') = Some raw
          \<and> json_loads (example_env (Some ''[]'')) (clean_markdown raw) = Inr v
          \<and> \<not> can_write (example_env (Some ''[]'')) (cache_file ''d/e'' 1)"
    using llm' cm ld cw by auto
  with w2 none de
  have b: "generate_assessment example_texts (example_env (Some ''[]'')) Map.empty ''d/e'' 1
       = Inr (Error ''Failed to generate assessment.'', Map.empty,
          [get_assessment_prompt example_texts 1 ''uploads/d/e/c.pdf''])"
    by auto
  from w3 none example_no_pdf [of None]
  have c: "generate_assessment example_texts (example_env None) Map.empty ''s3'' 1
       = Inr (Error ''No documents found for this session.'', Map.empty, [])"
    by auto
  from w1 a example_session_text [of "Some ''[]''"]
  have d: "\<exists>r. generate_assessment example_texts (example_env (Some ''[]'')) Map.empty ''s1'' 1
        = Inr r
      \<and> snd (snd r) = [get_assessment_prompt example_texts 1 ''uploads/s1/a.pdfuploads/s1/B.PDF'']"
    by auto
  from a b c d show ?thesis by (simp add: example_prompt pde)
qed

subsection \<open>The clean-up of the answer\<close>

lemma startswith_append: "startswith (p @ s) p"
  by (simp add: startswith_def)

lemma endswith_append: "endswith (s @ p) p"
  by (simp add: endswith_def)

lemma py_strip_head: "dropWhile py_isspace (py_strip s) = py_strip s"
proof -
  define t where "t = dropWhile py_isspace s"
  define u where "u = dropWhile py_isspace (rev t)"
  have t: "t = [] \<or> \<not> py_isspace (hd t)"
    unfolding t_def by (metis hd_dropWhile)
  have "rev t = takeWhile py_isspace (rev t) @ u"
    unfolding u_def by simp
  then have "t = rev u @ rev (takeWhile py_isspace (rev t))"
    by (metis rev_append rev_rev_ident)
  then have "rev u = [] \<or> hd (rev u) = hd t"
    by (metis hd_append2)
  moreover have "rev u \<noteq> [] \<Longrightarrow> t \<noteq> []"
    using \<open>t = rev u @ rev (takeWhile py_isspace (rev t))\<close> by auto
  ultimately have "rev u = [] \<or> \<not> py_isspace (hd (rev u))"
    using t by auto
  then have "dropWhile py_isspace (rev u) = rev u"
    by (cases "rev u") auto
  then show ?thesis unfolding py_strip_def t_def u_def .
qed

lemma py_strip_idem: "py_strip (py_strip s) = py_strip s"
proof -
  have "py_strip (py_strip s) = rev (dropWhile py_isspace (rev (py_strip s)))"
    unfolding py_strip_def [of "py_strip s"] py_strip_head ..
  also have "rev (py_strip s) = dropWhile py_isspace (rev (dropWhile py_isspace s))"
    by (simp add: py_strip_def)
  also have "rev (dropWhile py_isspace (dropWhile py_isspace (rev (dropWhile py_isspace s))))
      = py_strip s"
    by (simp add: py_strip_def dropWhile_idem)
  finally show ?thesis .
qed

lemma fence_len: "length fence = 3"
  by (simp add: fence_def)

lemma fence_json_len: "length fence_json = 7"
  by (simp add: fence_json_def)

lemma fence_json_eq: "fence_json = fence @ ''json''"
  by (simp add: fence_def fence_json_def)

lemma startswith_fence_json: "startswith s fence_json \<Longrightarrow> startswith s fence"
proof -
  assume "startswith s fence_json"
  then have a: "take 7 s = fence_json"
    by (simp add: startswith_def fence_json_len)
  have "take 3 s = take 3 (take 7 s)" by simp
  also have "\<dots> = fence" unfolding a fence_json_eq by (simp add: fence_len)
  finally show ?thesis by (simp add: startswith_def fence_len)
qed

lemma clean_markdown_plain:
  "\<not> startswith (py_strip raw) fence \<Longrightarrow> clean_markdown raw = py_strip raw"
  using startswith_fence_json [of "py_strip raw"]
  by (auto simp: clean_markdown_def Let_def)

lemma clean_markdown_json_fenced:
  assumes "py_strip raw = fence_json @ body @ fence"
  shows "clean_markdown raw = body"
proof -
  have s: "startswith (py_strip raw) fence_json"
    unfolding assms by (rule startswith_append)
  have "length (py_strip raw) - 3 = 7 + length body"
    unfolding assms by (simp add: fence_len fence_json_len)
  then have "take (length (py_strip raw) - 3) (py_strip raw) = fence_json @ body"
    unfolding assms by (simp add: fence_json_len)
  then have "drop 7 (take (length (py_strip raw) - 3) (py_strip raw)) = body"
    by (simp add: fence_json_len)
  with s show ?thesis by (simp add: clean_markdown_def Let_def)
qed

lemma clean_markdown_fenced:
  assumes "py_strip raw = fence @ body @ fence"
    and "\<not> startswith (py_strip raw) fence_json"
  shows "clean_markdown raw = body"
proof -
  have s: "startswith (py_strip raw) fence"
    unfolding assms(1) by (rule startswith_append)
  have "length (py_strip raw) - 3 = 3 + length body"
    unfolding assms(1) by (simp add: fence_len)
  then have "take (length (py_strip raw) - 3) (py_strip raw) = fence @ body"
    unfolding assms(1) by (simp add: fence_len)
  then have "drop 3 (take (length (py_strip raw) - 3) (py_strip raw)) = body"
    by (simp add: fence_len)
  with s assms(2) show ?thesis by (simp add: clean_markdown_def Let_def)
qed

lemma clean_roadmap_text_plain:
  assumes "\<not> startswith (py_strip raw) fence" and "\<not> endswith (py_strip raw) fence"
  shows "clean_roadmap_text raw = py_strip raw"
proof -
  from assms(1) have "\<not> startswith (py_strip raw) fence_json"
    using startswith_fence_json by blast
  with assms(2) have "strip_fences raw = py_strip raw"
    by (simp add: strip_fences_def Let_def)
  then show ?thesis by (simp add: clean_roadmap_text_def py_strip_idem)
qed

lemma clean_roadmap_text_json_fenced:
  assumes "py_strip raw = fence_json @ body @ fence"
  shows "clean_roadmap_text raw = py_strip body"
proof -
  have s: "startswith (py_strip raw) fence_json"
    unfolding assms by (rule startswith_append)
  have d: "drop 7 (py_strip raw) = body @ fence"
    unfolding assms by (simp add: fence_json_len)
  have e: "endswith (body @ fence) fence" by (rule endswith_append)
  have t: "take (length (body @ fence) - 3) (body @ fence) = body"
    by (simp add: fence_len)
  from s d e t have "strip_fences raw = body" by (simp add: strip_fences_def Let_def)
  then show ?thesis by (simp add: clean_roadmap_text_def)
qed

lemma clean_roadmap_text_leading:
  assumes "py_strip raw = fence_json @ body" and "\<not> endswith body fence"
  shows "clean_roadmap_text raw = py_strip body"
proof -
  have s: "startswith (py_strip raw) fence_json"
    using startswith_append [of fence_json body] unfolding assms(1) .
  have d: "drop 7 (py_strip raw) = body"
    unfolding assms(1) by (simp add: fence_json_len)
  from s d assms(2) have "strip_fences raw = body" by (simp add: strip_fences_def Let_def)
  then show ?thesis by (simp add: clean_roadmap_text_def)
qed

lemma clean_roadmap_text_trailing:
  assumes "py_strip raw = body @ fence" and "\<not> startswith (py_strip raw) fence"
  shows "clean_roadmap_text raw = py_strip body"
proof -
  from assms(2) have s: "\<not> startswith (py_strip raw) fence_json"
    using startswith_fence_json by blast
  have e: "endswith (py_strip raw) fence"
    unfolding assms(1) by (rule endswith_append)
  have t: "take (length (py_strip raw) - 3) (py_strip raw) = body"
    unfolding assms(1) by (simp add: fence_len)
  from s e t have "strip_fences raw = body" by (simp add: strip_fences_def Let_def)
  then show ?thesis by (simp add: clean_roadmap_text_def)
qed

lemma spec_parse_eq:
  assumes "\<forall>t v. json_loads env t = Inr v \<longrightarrow> loads_repaired env t = Inr v"
  shows "loads_repaired env s = spec_parse env s"
  using assms by (auto simp: spec_parse_def split: sum.splits)

lemma generate_assessment_reply:
  assumes "cache (cache_file sid lvl) = None" and "get_session_text env sid = Inr ctx"
    and "ctx \<noteq> []" and "llm_invoke env (get_assessment_prompt tx lvl ctx) = Some raw"
  shows "generate_assessment tx env cache sid lvl =
     (case json_loads env (clean_markdown raw) of
        Inl msg \<Rightarrow> Inr (Error ''Failed to generate assessment.'', cache,
                         [get_assessment_prompt tx lvl ctx])
      | Inr v \<Rightarrow>
          if can_write env (cache_file sid lvl)
          then Inr (Payload \<lparr>a_level = lvl, a_timer_seconds = 600, a_questions = v\<rparr>,
                    cache(cache_file sid lvl \<mapsto>
                      \<lparr>a_level = lvl, a_timer_seconds = 600, a_questions = v\<rparr>),
                    [get_assessment_prompt tx lvl ctx])
          else Inr (Error ''Failed to generate assessment.'', cache,
                    [get_assessment_prompt tx lvl ctx]))"
  using assms by (simp add: generate_assessment_def Let_def split: sum.splits)

lemma generate_roadmap_reply:
  assumes "generate_content env
             (roadmap_system_prompt tx @ newline @ newline @ ''User Goal: '' @ prompt) = Inr raw"
  shows "(\<forall>msg. loads_repaired env (clean_roadmap_text raw) = Inl msg \<longrightarrow>
            generate_roadmap tx env prompt sid rid now
              = Error (''Failed to parse AI response: '' @ msg))
     \<and> (\<forall>kvs. loads_repaired env (clean_roadmap_text raw) = Inr (JObj kvs) \<longrightarrow>
            generate_roadmap tx env prompt sid rid now
              = Payload (JObj (dict_set ''progress_percentage'' (JInt 0)
                  (dict_set ''days_completed'' (JInt 0)
                    (dict_set ''status'' (JStr ''active'')
                      (dict_set ''created_at'' (JStr now)
                        (dict_set ''session_id'' (JStr sid)
                          (dict_set ''id'' (JStr rid) kvs))))))))"
  using assms by (auto simp: generate_roadmap_def split: json.splits)

text \<open>
  C7, amended.  In \<open>generate_assessment\<close> the stripped answer is kept when it does not start
  with a fence, and a body wrapped in \<open>```json\<close> \<dots> \<open>```\<close> or in \<open>```\<close> \<dots> \<open>```\<close> is unwrapped; the
  result is parsed strictly, with no repair pass, and a parse failure gives the error
  payload \<open>Failed to generate assessment.\<close>  In \<open>generate_roadmap\<close> the stripped answer is kept
  when it neither starts nor ends with a fence; a leading \<open>```json\<close> and a trailing \<open>```\<close> are
  removed, together or each alone, and the rest is stripped; the text goes through the
  repair pass and is then parsed, and a failure of either gives an error payload with
  the message of the exception.  Where the repair pass keeps the value of every text that
  parses strictly, repairing and parsing is the strict parse followed, on failure, by the
  repair pass and a second parse.
\<close>

theorem response_normalizers:
  "(\<not> startswith (py_strip raw) fence \<longrightarrow> clean_markdown raw = py_strip raw)
   \<and> (py_strip raw = fence_json @ body @ fence \<longrightarrow> clean_markdown raw = body)
   \<and> (py_strip raw = fence @ body @ fence \<and> \<not> startswith (py_strip raw) fence_json
        \<longrightarrow> clean_markdown raw = body)
   \<and> (\<forall>ctx. cache (cache_file sid lvl) = None \<and> get_session_text env sid = Inr ctx
          \<and> ctx \<noteq> [] \<and> llm_invoke env (get_assessment_prompt tx lvl ctx) = Some raw
        \<longrightarrow> generate_assessment tx env cache sid lvl =
             (case json_loads env (clean_markdown raw) of
                Inl msg \<Rightarrow> Inr (Error ''Failed to generate assessment.'', cache,
                                 [get_assessment_prompt tx lvl ctx])
              | Inr v \<Rightarrow>
                  if can_write env (cache_file sid lvl)
                  then Inr (Payload \<lparr>a_level = lvl, a_timer_seconds = 600, a_questions = v\<rparr>,
                            cache(cache_file sid lvl \<mapsto>
                              \<lparr>a_level = lvl, a_timer_seconds = 600, a_questions = v\<rparr>),
                            [get_assessment_prompt tx lvl ctx])
                  else Inr (Error ''Failed to generate assessment.'', cache,
                            [get_assessment_prompt tx lvl ctx])))
   \<and> (\<not> startswith (py_strip raw) fence \<and> \<not> endswith (py_strip raw) fence
        \<longrightarrow> clean_roadmap_text raw = py_strip raw)
   \<and> (py_strip raw = fence_json @ body @ fence \<longrightarrow> clean_roadmap_text raw = py_strip body)
   \<and> (py_strip raw = fence_json @ body \<and> \<not> endswith body fence
        \<longrightarrow> clean_roadmap_text raw = py_strip body)
   \<and> (py_strip raw = body @ fence \<and> \<not> startswith (py_strip raw) fence
        \<longrightarrow> clean_roadmap_text raw = py_strip body)
   \<and> (generate_content env
         (roadmap_system_prompt tx @ newline @ newline @ ''User Goal: '' @ prompt) = Inr raw
        \<longrightarrow> (\<forall>msg. loads_repaired env (clean_roadmap_text raw) = Inl msg \<longrightarrow>
                generate_roadmap tx env prompt sid rid now
                  = Error (''Failed to parse AI response: '' @ msg))
            \<and> (\<forall>kvs. loads_repaired env (clean_roadmap_text raw) = Inr (JObj kvs) \<longrightarrow>
                generate_roadmap tx env prompt sid rid now
                  = Payload (JObj (dict_set ''progress_percentage'' (JInt 0)
                      (dict_set ''days_completed'' (JInt 0)
                        (dict_set ''status'' (JStr ''active'')
                          (dict_set ''created_at'' (JStr now)
                            (dict_set ''session_id'' (JStr sid)
                              (dict_set ''id'' (JStr rid) kvs)))))))))
   \<and> ((\<forall>t v. json_loads env t = Inr v \<longrightarrow> loads_repaired env t = Inr v)
        \<longrightarrow> loads_repaired env s = spec_parse env s)"
proof -
  have a1: "\<not> startswith (py_strip raw) fence \<longrightarrow> clean_markdown raw = py_strip raw"
    by (simp add: clean_markdown_plain)
  have a2: "py_strip raw = fence_json @ body @ fence \<longrightarrow> clean_markdown raw = body"
    by (simp add: clean_markdown_json_fenced)
  have a3: "py_strip raw = fence @ body @ fence \<and> \<not> startswith (py_strip raw) fence_json
        \<longrightarrow> clean_markdown raw = body"
    using clean_markdown_fenced by blast
  have a4: "\<forall>ctx. cache (cache_file sid lvl) = None \<and> get_session_text env sid = Inr ctx
          \<and> ctx \<noteq> [] \<and> llm_invoke env (get_assessment_prompt tx lvl ctx) = Some raw
        \<longrightarrow> generate_assessment tx env cache sid lvl =
             (case json_loads env (clean_markdown raw) of
                Inl msg \<Rightarrow> Inr (Error ''Failed to generate assessment.'', cache,
                                 [get_assessment_prompt tx lvl ctx])
              | Inr v \<Rightarrow>
                  if can_write env (cache_file sid lvl)
                  then Inr (Payload \<lparr>a_level = lvl, a_timer_seconds = 600, a_questions = v\<rparr>,
                            cache(cache_file sid lvl \<mapsto>
                              \<lparr>a_level = lvl, a_timer_seconds = 600, a_questions = v\<rparr>),
                            [get_assessment_prompt tx lvl ctx])
                  else Inr (Error ''Failed to generate assessment.'', cache,
                            [get_assessment_prompt tx lvl ctx]))"
    using generate_assessment_reply by blast
  have b1: "\<not> startswith (py_strip raw) fence \<and> \<not> endswith (py_strip raw) fence
        \<longrightarrow> clean_roadmap_text raw = py_strip raw"
    by (simp add: clean_roadmap_text_plain)
  have b2: "py_strip raw = fence_json @ body @ fence \<longrightarrow> clean_roadmap_text raw = py_strip body"
    by (simp add: clean_roadmap_text_json_fenced)
  have b3: "py_strip raw = fence_json @ body \<and> \<not> endswith body fence
        \<longrightarrow> clean_roadmap_text raw = py_strip body"
    using clean_roadmap_text_leading by blast
  have b4: "py_strip raw = body @ fence \<and> \<not> startswith (py_strip raw) fence
        \<longrightarrow> clean_roadmap_text raw = py_strip body"
    using clean_roadmap_text_trailing by blast
  note b5 = generate_roadmap_reply [of env tx prompt raw sid rid now]
  note b6 = spec_parse_eq [of env s]
  from a1 a2 a3 a4 b1 b2 b3 b4 b5 b6 show ?thesis by blast
qed

lemma py_strip_example: "py_strip ''```json[]```'' = fence_json @ ''[]'' @ fence"
  by (simp add: py_strip_def py_isspace_def fence_def fence_json_def)

lemma py_strip_example_trailing: "py_strip ''{}```'' = ''{}'' @ fence"
  by (simp add: py_strip_def py_isspace_def fence_def)

theorem response_normalizers_witness:
  "py_strip ''```json[]```'' = fence_json @ ''[]'' @ fence
   \<and> clean_markdown ''```json[]```'' = ''[]''
   \<and> clean_roadmap_text ''```json[]```'' = ''[]''
   \<and> py_strip ''{}```'' = ''{}'' @ fence
   \<and> clean_roadmap_text ''{}```'' = ''{}''"
proof -
  note w = response_normalizers [where raw = "''```json[]```''" and body = "''[]''"]
  note v = response_normalizers [where raw = "''{}```''" and body = "''{}''"]
  from w py_strip_example have a: "clean_markdown ''```json[]```'' = ''[]''" by blast
  from w py_strip_example have "clean_roadmap_text ''```json[]```'' = py_strip ''[]''"
    by blast
  moreover have "py_strip ''[]'' = ''[]''"
    by (simp add: py_strip_def py_isspace_def)
  ultimately have b: "clean_roadmap_text ''```json[]```'' = ''[]''" by simp
  have "\<not> startswith (py_strip ''{}```'') fence"
    unfolding py_strip_example_trailing by (simp add: startswith_def fence_def)
  with v py_strip_example_trailing have "clean_roadmap_text ''{}```'' = py_strip ''{}''"
    by blast
  moreover have "py_strip ''{}'' = ''{}''"
    by (simp add: py_strip_def py_isspace_def)
  ultimately have c: "clean_roadmap_text ''{}```'' = ''{}''" by simp
  from a b c py_strip_example py_strip_example_trailing show ?thesis by simp
qed

lemma example_failing_call:
  "generate_assessment example_texts (example_env (Some ''['')) Map.empty ''s1'' 1
     = Inr (Error ''Failed to generate assessment.'', Map.empty,
            [''L1<uploads/s1/a.pdfuploads/s1/B.PDF>''])"
proof -
  have a: "llm_invoke (example_env (Some ''['')) p = Some ''[''" for p
    by (simp add: example_env_def)
  have c: "clean_markdown ''['' = ''[''"
    by (simp add: clean_markdown_def py_strip_def py_isspace_def startswith_def fence_json_def
        fence_def)
  have b: "json_loads (example_env (Some ''['')) ''['' = Inl ''Expecting value''"
    by (simp add: example_env_def)
  show ?thesis
    by (simp add: generate_assessment_def example_session_text example_prompt a b c Let_def)
qed

text \<open>
  C7, as the specification states it, fails.  \<open>generate_assessment\<close> has no repair pass: for
  the answer \<open>[\<close>, which does not parse and which the repair pass of the example turns into
  \<open>[]\<close>, it returns the failure payload, where the strict parse followed by the repair pass
  gives the empty list.
\<close>

theorem response_normalizers_counterexample:
  "generate_assessment example_texts (example_env (Some ''['')) Map.empty ''s1'' 1
     = Inr (Error ''Failed to generate assessment.'', Map.empty,
            [''L1<uploads/s1/a.pdfuploads/s1/B.PDF>''])
   \<and> clean_markdown ''['' = ''[''
   \<and> json_loads (example_env (Some ''['')) ''['' = Inl ''Expecting value''
   \<and> repair_json (example_env (Some ''['')) ''['' = Inr ''[]''
   \<and> spec_parse (example_env (Some ''['')) (clean_markdown ''['') = Inr (JArr [])"
proof -
  have c: "clean_markdown ''['' = ''[''"
    by (simp add: clean_markdown_def py_strip_def py_isspace_def startswith_def fence_json_def
        fence_def)
  have l: "json_loads (example_env (Some ''['')) ''['' = Inl ''Expecting value''"
    and r: "repair_json (example_env (Some ''['')) ''['' = Inr ''[]''"
    by (simp_all add: example_env_def)
  have s: "spec_parse (example_env (Some ''['')) (clean_markdown ''['') = Inr (JArr [])"
    unfolding c by (simp add: spec_parse_def loads_repaired_def example_env_def)
  from example_failing_call c l r s show ?thesis by simp
qed

section \<open>Verification of the roadmap service\<close>

lemma generate_week_content_error:
  "generate_week_content tx env store rid wn = (Error msg, store') \<Longrightarrow> store' = store"
  by (auto simp: generate_week_content_def Let_def split: option.splits sum.splits)

text \<open>
  C9.  When no roadmap is stored under the identifier, \<open>generate_week_content\<close> returns the
  error \<open>Roadmap not found\<close>; when the roadmap has no week with the number, it returns the
  error \<open>Week n not found in roadmap outline\<close>; in both cases, as with every error it returns,
  the store is as it was.
\<close>

theorem week_not_found:
  "(get_roadmap store rid = None \<longrightarrow>
      generate_week_content tx env store rid wn = (Error ''Roadmap not found'', store))
   \<and> (\<forall>r. get_roadmap store rid = Some r \<and> (\<forall>w \<in> set (weeks r). week_number w \<noteq> wn) \<longrightarrow>
      generate_week_content tx env store rid wn
        = (Error (''Week '' @ str_int wn @ '' not found in roadmap outline''), store))
   \<and> (\<forall>msg store'. generate_week_content tx env store rid wn = (Error msg, store')
        \<longrightarrow> store' = store)"
proof (intro conjI allI impI)
  assume "get_roadmap store rid = None"
  then show "generate_week_content tx env store rid wn = (Error ''Roadmap not found'', store)"
    by (simp add: generate_week_content_def)
next
  fix r
  assume a: "get_roadmap store rid = Some r \<and> (\<forall>w \<in> set (weeks r). week_number w \<noteq> wn)"
  then have "find (\<lambda>w. week_number w = wn) (weeks r) = None"
    by (simp add: find_None_iff)
  with a show "generate_week_content tx env store rid wn
        = (Error (''Week '' @ str_int wn @ '' not found in roadmap outline''), store)"
    by (simp add: generate_week_content_def)
next
  fix msg store'
  assume "generate_week_content tx env store rid wn = (Error msg, store')"
  then show "store' = store" by (rule generate_week_content_error)
qed

lemma example_get: "get_roadmap example_store ''r1'' = Some example_roadmap"
  by (simp add: example_store_def save_roadmap_def get_roadmap_def example_roadmap_def)

lemma example_get_other: "get_roadmap example_store ''r2'' = None"
  by (simp add: example_store_def save_roadmap_def get_roadmap_def example_roadmap_def
      path_join_def ROADMAPS_DIR_def startswith_def endswith_def)

theorem week_not_found_witness:
  "get_roadmap example_store ''r2'' = None
   \<and> generate_week_content example_texts (example_env None) example_store ''r2'' 1
       = (Error ''Roadmap not found'', example_store)
   \<and> get_roadmap example_store ''r1'' = Some example_roadmap
   \<and> map week_number (weeks example_roadmap) = [1]
   \<and> generate_week_content example_texts (example_env None) example_store ''r1'' 2
       = (Error ''Week 2 not found in roadmap outline'', example_store)"
proof -
  have w: "\<forall>w \<in> set (weeks example_roadmap). week_number w \<noteq> 2"
    by (simp add: example_roadmap_def)
  have s: "str_int 2 = ''2''"
    by (simp add: str_int_def str_nat.simps)
  from week_not_found [of example_store "''r2''" example_texts "example_env None" 1]
    example_get_other
  have a: "generate_week_content example_texts (example_env None) example_store ''r2'' 1
       = (Error ''Roadmap not found'', example_store)"
    by blast
  from week_not_found [of example_store "''r1''" example_texts "example_env None" 2]
    example_get w
  have "generate_week_content example_texts (example_env None) example_store ''r1'' 2
       = (Error (''Week '' @ str_int 2 @ '' not found in roadmap outline''), example_store)"
    by blast
  then have b: "generate_week_content example_texts (example_env None) example_store ''r1'' 2
       = (Error ''Week 2 not found in roadmap outline'', example_store)"
    by (simp add: s)
  have m: "map week_number (weeks example_roadmap) = [1]"
    by (simp add: example_roadmap_def)
  from a b m example_get example_get_other show ?thesis by blast
qed

lemma update_progress_missing:
  "get_roadmap store rid = None \<Longrightarrow> update_progress store rid dn = Inr (None, store)"
  by (simp add: update_progress_def)

lemma update_progress_present:
  "get_roadmap store rid = Some r \<Longrightarrow> completed_days r = Some cd \<Longrightarrow> dn \<in> set cd
    \<Longrightarrow> update_progress store rid dn = Inr (Some r, store)"
  by (simp add: update_progress_def)

lemma update_progress_new:
  assumes "get_roadmap store rid = Some r"
    and "dn \<notin> set (case completed_days r of None \<Rightarrow> [] | Some l \<Rightarrow> l)"
  shows "update_progress store rid dn =
     (case py_truediv (int (length (case completed_days r of None \<Rightarrow> [] | Some l \<Rightarrow> l)) + 1)
             (total_days r) of
        Inl e \<Rightarrow> Inl e
      | Inr q \<Rightarrow>
          Inr (Some (r\<lparr>completed_days :=
                         Some ((case completed_days r of None \<Rightarrow> [] | Some l \<Rightarrow> l) @ [dn]),
                       days_completed :=
                         int (length (case completed_days r of None \<Rightarrow> [] | Some l \<Rightarrow> l)) + 1,
                       progress_percentage := py_mul_100 q\<rparr>),
               save_roadmap store
                 (r\<lparr>completed_days :=
                      Some ((case completed_days r of None \<Rightarrow> [] | Some l \<Rightarrow> l) @ [dn]),
                    days_completed :=
                      int (length (case completed_days r of None \<Rightarrow> [] | Some l \<Rightarrow> l)) + 1,
                    progress_percentage := py_mul_100 q\<rparr>)))"
  using assms
  by (cases "completed_days r")
     (auto simp add: update_progress_def Let_def add.commute split: sum.splits)

lemma py_truediv_zero: "py_truediv a 0 = Inl ZeroDivisionError"
  by (simp add: py_truediv_def)

lemma one_third: "py_truediv 1 3 = Inr (Float 6004799503160661 (- 54))"
  by (simp add: py_truediv_def round_double_def floor_log2_def round_half_even_def
      overflows_def bit_length.simps Let_def)

lemma one_third_times_100:
  "py_mul_100 (Float 6004799503160661 (- 54)) = Float 4691249611844266 (- 47)"
  by (simp add: round_double_def floor_log2_def round_half_even_def
      overflows_def bit_length.simps Let_def)

lemma hundred_thirds: "py_truediv (100 * 1) 3 = Inr (Float 4691249611844267 (- 47))"
  by (simp add: py_truediv_def round_double_def floor_log2_def round_half_even_def
      overflows_def bit_length.simps Let_def)

lemma get_saved_roadmap:
  "rm_id r = rid \<Longrightarrow> get_roadmap (save_roadmap store r) rid = Some r"
  by (simp add: get_roadmap_def save_roadmap_def)

lemma update_progress_twice:
  assumes "get_roadmap store rid = Some r" and "rm_id r = rid"
    and "update_progress store rid dn = Inr (Some r', store')"
  shows "update_progress store' rid dn = Inr (Some r', store')"
proof (cases "dn \<in> set (case completed_days r of None \<Rightarrow> [] | Some l \<Rightarrow> l)")
  case True
  then obtain cd where cd: "completed_days r = Some cd" "dn \<in> set cd"
    by (cases "completed_days r") auto
  with assms(1) have "update_progress store rid dn = Inr (Some r, store)"
    by (simp add: update_progress_present)
  with assms(3) have "r' = r" "store' = store" by simp_all
  with assms(1) cd show ?thesis by (simp add: update_progress_present)
next
  case False
  let ?cd = "case completed_days r of None \<Rightarrow> [] | Some l \<Rightarrow> l"
  from assms(3) update_progress_new [OF assms(1) False]
  obtain q where r': "r' = r\<lparr>completed_days := Some (?cd @ [dn]),
                       days_completed := int (length ?cd) + 1,
                       progress_percentage := py_mul_100 q\<rparr>"
    and s': "store' = save_roadmap store r'"
    by (auto split: sum.splits)
  from r' assms(2) have "rm_id r' = rid" by simp
  then have "get_roadmap store' rid = Some r'"
    unfolding s' by (rule get_saved_roadmap)
  moreover from r' have "completed_days r' = Some (?cd @ [dn])" by simp
  moreover have "dn \<in> set (?cd @ [dn])" by simp
  ultimately show ?thesis by (rule update_progress_present)
qed

text \<open>
  C6, amended.  \<open>update_progress\<close> returns \<open>None\<close> and leaves the store when no roadmap is
  stored under the identifier.  When the day is among the completed days it returns the
  roadmap as stored and writes nothing.  Otherwise it appends the day, sets
  \<open>days_completed\<close> to the new number of completed days and \<open>progress_percentage\<close> to the
  double \<open>(days_completed / total_days) * 100\<close>, that is the quotient rounded to a double and
  its product with 100 rounded again, saves the roadmap and returns it; the division
  raises when \<open>total_days\<close> is 0.  A second call with the same day, on a roadmap stored
  under its own identifier, returns the same roadmap and leaves the store.
\<close>

theorem update_progress_result:
  "(get_roadmap store rid = None \<longrightarrow> update_progress store rid dn = Inr (None, store))
   \<and> (\<forall>r cd. get_roadmap store rid = Some r \<and> completed_days r = Some cd \<and> dn \<in> set cd
        \<longrightarrow> update_progress store rid dn = Inr (Some r, store))
   \<and> (\<forall>r. get_roadmap store rid = Some r
          \<and> dn \<notin> set (case completed_days r of None \<Rightarrow> [] | Some l \<Rightarrow> l)
        \<longrightarrow> update_progress store rid dn =
             (case py_truediv
                     (int (length (case completed_days r of None \<Rightarrow> [] | Some l \<Rightarrow> l)) + 1)
                     (total_days r) of
                Inl e \<Rightarrow> Inl e
              | Inr q \<Rightarrow>
                  Inr (Some (r\<lparr>completed_days :=
                         Some ((case completed_days r of None \<Rightarrow> [] | Some l \<Rightarrow> l) @ [dn]),
                       days_completed :=
                         int (length (case completed_days r of None \<Rightarrow> [] | Some l \<Rightarrow> l)) + 1,
                       progress_percentage := py_mul_100 q\<rparr>),
                    save_roadmap store
                      (r\<lparr>completed_days :=
                           Some ((case completed_days r of None \<Rightarrow> [] | Some l \<Rightarrow> l) @ [dn]),
                         days_completed :=
                           int (length (case completed_days r of None \<Rightarrow> [] | Some l \<Rightarrow> l)) + 1,
                         progress_percentage := py_mul_100 q\<rparr>))))
   \<and> (\<forall>r r' store'. get_roadmap store rid = Some r \<and> rm_id r = rid
          \<and> update_progress store rid dn = Inr (Some r', store')
        \<longrightarrow> update_progress store' rid dn = Inr (Some r', store'))
   \<and> py_truediv n 0 = Inl ZeroDivisionError"
proof (intro conjI allI impI)
  assume "get_roadmap store rid = None"
  then show "update_progress store rid dn = Inr (None, store)"
    by (rule update_progress_missing)
next
  fix r cd
  assume "get_roadmap store rid = Some r \<and> completed_days r = Some cd \<and> dn \<in> set cd"
  then show "update_progress store rid dn = Inr (Some r, store)"
    by (simp add: update_progress_present)
next
  fix r
  assume a: "get_roadmap store rid = Some r
          \<and> dn \<notin> set (case completed_days r of None \<Rightarrow> [] | Some l \<Rightarrow> l)"
  from a have g: "get_roadmap store rid = Some r" by simp
  from a have n: "dn \<notin> set (case completed_days r of None \<Rightarrow> [] | Some l \<Rightarrow> l)" by simp
  show "update_progress store rid dn =
             (case py_truediv
                     (int (length (case completed_days r of None \<Rightarrow> [] | Some l \<Rightarrow> l)) + 1)
                     (total_days r) of
                Inl e \<Rightarrow> Inl e
              | Inr q \<Rightarrow>
                  Inr (Some (r\<lparr>completed_days :=
                         Some ((case completed_days r of None \<Rightarrow> [] | Some l \<Rightarrow> l) @ [dn]),
                       days_completed :=
                         int (length (case completed_days r of None \<Rightarrow> [] | Some l \<Rightarrow> l)) + 1,
                       progress_percentage := py_mul_100 q\<rparr>),
                    save_roadmap store
                      (r\<lparr>completed_days :=
                           Some ((case completed_days r of None \<Rightarrow> [] | Some l \<Rightarrow> l) @ [dn]),
                         days_completed :=
                           int (length (case completed_days r of None \<Rightarrow> [] | Some l \<Rightarrow> l)) + 1,
                         progress_percentage := py_mul_100 q\<rparr>)))"
    using g n by (rule update_progress_new)
next
  fix r r' store'
  assume "get_roadmap store rid = Some r \<and> rm_id r = rid
          \<and> update_progress store rid dn = Inr (Some r', store')"
  then show "update_progress store' rid dn = Inr (Some r', store')"
    using update_progress_twice by blast
next
  show "py_truediv n 0 = Inl ZeroDivisionError" by (rule py_truediv_zero)
qed

lemma example_first_day:
  "update_progress example_store ''r1'' 1 =
     Inr (Some (example_roadmap\<lparr>completed_days := Some [1], days_completed := 1,
                  progress_percentage := Float 4691249611844266 (- 47)\<rparr>),
          save_roadmap example_store
            (example_roadmap\<lparr>completed_days := Some [1], days_completed := 1,
               progress_percentage := Float 4691249611844266 (- 47)\<rparr>))"
proof -
  have c: "completed_days example_roadmap = None" and t: "total_days example_roadmap = 3"
    by (simp_all add: example_roadmap_def)
  have n: "1 \<notin> set (case completed_days example_roadmap of None \<Rightarrow> [] | Some l \<Rightarrow> l)"
    by (simp add: c)
  show ?thesis
    unfolding update_progress_new [OF example_get n]
    by (simp add: c t one_third one_third_times_100 del: py_mul_100.simps)
qed

text \<open>
  C6, as the specification states it, fails.  On the three-day roadmap of the example,
  completing day 1 stores the double \<open>4691249611844266 \<cdot> 2\<^sup>-\<^sup>4\<^sup>7\<close> (Python prints
  \<open>33.33333333333333\<close>).  That is not the number \<open>100 \<cdot> 1 / 3\<close>, and it is not the double that
  the expression \<open>100 * 1 / 3\<close> evaluates to, \<open>4691249611844267 \<cdot> 2\<^sup>-\<^sup>4\<^sup>7\<close> (printed
  \<open>33.333333333333336\<close>).
\<close>

theorem update_progress_counterexample:
  "update_progress example_store ''r1'' 1 =
     Inr (Some (example_roadmap\<lparr>completed_days := Some [1], days_completed := 1,
                  progress_percentage := Float 4691249611844266 (- 47)\<rparr>),
          save_roadmap example_store
            (example_roadmap\<lparr>completed_days := Some [1], days_completed := 1,
               progress_percentage := Float 4691249611844266 (- 47)\<rparr>))
   \<and> total_days example_roadmap = 3
   \<and> float_val (Float 4691249611844266 (- 47)) \<noteq> Some (100 * 1 / 3)
   \<and> py_truediv (100 * 1) 3 = Inr (Float 4691249611844267 (- 47))
   \<and> float_val (Float 4691249611844266 (- 47)) \<noteq> float_val (Float 4691249611844267 (- 47))"
proof -
  have t: "total_days example_roadmap = 3"
    by (simp add: example_roadmap_def)
  have a: "float_val (Float 4691249611844266 (- 47)) \<noteq> Some (100 * 1 / 3)"
    by (simp add: pow2_def)
  have b: "float_val (Float 4691249611844266 (- 47)) \<noteq> float_val (Float 4691249611844267 (- 47))"
    by (simp add: pow2_def)
  from example_first_day t a hundred_thirds b show ?thesis by blast
qed

theorem update_progress_result_witness:
  "get_roadmap example_store ''r2'' = None
   \<and> update_progress example_store ''r2'' 1 = Inr (None, example_store)
   \<and> get_roadmap example_store ''r1'' = Some example_roadmap
   \<and> 2 \<notin> set (case completed_days example_roadmap of None \<Rightarrow> [] | Some l \<Rightarrow> l)
   \<and> update_progress example_store ''r1'' 2 =
         Inr (Some (example_roadmap\<lparr>completed_days := Some [2], days_completed := 1,
                      progress_percentage := Float 4691249611844266 (- 47)\<rparr>),
              save_roadmap example_store
                (example_roadmap\<lparr>completed_days := Some [2], days_completed := 1,
                   progress_percentage := Float 4691249611844266 (- 47)\<rparr>))"
proof -
  have c: "completed_days example_roadmap = None" and t: "total_days example_roadmap = 3"
    by (simp_all add: example_roadmap_def)
  have n: "2 \<notin> set (case completed_days example_roadmap of None \<Rightarrow> [] | Some l \<Rightarrow> l)"
    by (simp add: c)
  from update_progress_result [of example_store "''r2''" 1] example_get_other
  have a: "update_progress example_store ''r2'' 1 = Inr (None, example_store)" by blast
  from update_progress_result [of example_store "''r1''" 2] example_get n
  have "update_progress example_store ''r1'' 2 =
       (case py_truediv
               (int (length (case completed_days example_roadmap of None \<Rightarrow> [] | Some l \<Rightarrow> l)) + 1)
               (total_days example_roadmap) of
          Inl e \<Rightarrow> Inl e
        | Inr q \<Rightarrow>
            Inr (Some (example_roadmap\<lparr>completed_days :=
                   Some ((case completed_days example_roadmap of None \<Rightarrow> [] | Some l \<Rightarrow> l) @ [2]),
                 days_completed :=
                   int (length (case completed_days example_roadmap of None \<Rightarrow> [] | Some l \<Rightarrow> l)) + 1,
                 progress_percentage := py_mul_100 q\<rparr>),
              save_roadmap example_store
                (example_roadmap\<lparr>completed_days :=
                   Some ((case completed_days example_roadmap of None \<Rightarrow> [] | Some l \<Rightarrow> l) @ [2]),
                 days_completed :=
                   int (length (case completed_days example_roadmap of None \<Rightarrow> [] | Some l \<Rightarrow> l)) + 1,
                 progress_percentage := py_mul_100 q\<rparr>)))"
    by blast
  then have b: "update_progress example_store ''r1'' 2 =
         Inr (Some (example_roadmap\<lparr>completed_days := Some [2], days_completed := 1,
                      progress_percentage := Float 4691249611844266 (- 47)\<rparr>),
              save_roadmap example_store
                (example_roadmap\<lparr>completed_days := Some [2], days_completed := 1,
                   progress_percentage := Float 4691249611844266 (- 47)\<rparr>))"
    by (simp add: c t one_third one_third_times_100 del: py_mul_100.simps)
  from a b n example_get example_get_other show ?thesis by blast
qed

end
